theory Spec2Isabelle
  imports Main
begin

section \<open>Template execution (package template)\<close>

subsection \<open>Values and errors\<close>

text \<open>
  A Go \<^verbatim>\<open>interface{}\<close> value of the render context: \<open>Nil\<close> is the nil interface,
  \<open>StringMap\<close> a \<^verbatim>\<open>map[string]interface{}\<close>, \<open>Generic\<close> any other value (a decoded
  tree, a number, a string). A Go map is a partial function; a nil map reads as the
  empty one.
\<close>

datatype 'v iface = Nil | Generic 'v | StringMap "string \<Rightarrow> 'v iface option"

text \<open>
  Go errors. \<open>Wrapped msg e\<close> is \<^verbatim>\<open>fmt.Errorf("msg: %w", e)\<close>, \<open>Message\<close> an error made of a
  text only, \<open>External\<close> an error that a collaborator (a backend, the codec, the writer)
  returned, \<open>Aggregate\<close> the aggregate of a list of field errors (path, detail).
\<close>

datatype error =
    UnknownTemplateType string
  | Wrapped string error
  | Message string
  | External string
  | Aggregate "(string \<times> string) list"

subsection \<open>Executors, blueprints, options\<close>

record TemplateExecutor =
  Name :: string
  Type :: string
  File :: string

record BlueprintInfo =
  SubinstallationExecutions :: "TemplateExecutor list"
  DeployExecutions :: "TemplateExecutor list"
  ExportExecutions :: "TemplateExecutor list"

record Blueprint =
  Info :: BlueprintInfo

text \<open>
  The pointers to a blueprint and to its \<^verbatim>\<open>Info\<close> are taken as set: a \<open>Blueprint\<close> is
  the blueprint itself.
\<close>

text \<open>
  The part of an installation that the templater reads: \<^verbatim>\<open>Spec.Blueprint\<close> (a struct) and
  \<^verbatim>\<open>Spec.ComponentDescriptor\<close> (a pointer, \<open>None\<close> when nil).
\<close>

record ('bd, 'cdd) InstallationSpec =
  Spec_Blueprint :: 'bd
  Spec_ComponentDescriptor :: "'cdd option"

record ('bd, 'cdd) Installation =
  Spec :: "('bd, 'cdd) InstallationSpec"

record ('v, 'bd, 'cdd, 'cd, 'cdl) DeployExecutionOptions =
  Imports :: "string \<Rightarrow> 'v iface option"
  Installation :: "('bd, 'cdd) Installation option"
  Blueprint :: Blueprint
  ComponentDescriptor :: "'cd option"
  ComponentDescriptors :: "'cdl option"

subsection \<open>Backends\<close>

text \<open>
  The outputs of one executor. A Go slice that may be nil is an optional list.
\<close>

record 'i SubinstallationExecutorOutput =
  Subinstallations :: "'i list option"

record 'd DeployExecutorOutput =
  DeployItems :: "'d list option"

record 'v ExportExecutorOutput =
  Exports :: "string \<Rightarrow> 'v iface option"

text \<open>
  The interface \<^verbatim>\<open>ExecutionTemplater\<close>. A method returns a pointer and an error; following
  the backend contract (an output or an error) the pair is a sum. The export method takes
  the executor, the blueprint and the \<^verbatim>\<open>exports\<close> value only.
\<close>

record ('v, 'cd, 'cdl, 'i, 'd) ExecutionTemplater =
  impl_Type :: string
  impl_TemplateSubinstallationExecutions ::
    "TemplateExecutor \<Rightarrow> Blueprint \<Rightarrow> 'cd option \<Rightarrow> 'cdl option \<Rightarrow>
     (string \<Rightarrow> 'v iface option) \<Rightarrow> error + 'i SubinstallationExecutorOutput"
  impl_TemplateDeployExecutions ::
    "TemplateExecutor \<Rightarrow> Blueprint \<Rightarrow> 'cd option \<Rightarrow> 'cdl option \<Rightarrow>
     (string \<Rightarrow> 'v iface option) \<Rightarrow> error + 'd DeployExecutorOutput"
  impl_TemplateExportExecutions ::
    "TemplateExecutor \<Rightarrow> Blueprint \<Rightarrow> 'v iface \<Rightarrow> error + 'v ExportExecutorOutput"

record ('v, 'cd, 'cdl, 'i, 'd) Templater =
  impl :: "string \<Rightarrow> ('v, 'cd, 'cdl, 'i, 'd) ExecutionTemplater option"

definition New ::
  "('v, 'cd, 'cdl, 'i, 'd) ExecutionTemplater list \<Rightarrow> ('v, 'cd, 'cdl, 'i, 'd) Templater" where
  "New templaters =
     \<lparr>impl = foldl (\<lambda>m templater. m(impl_Type templater \<mapsto> templater)) Map.empty templaters\<rparr>"

text \<open>
  The invocations of backend methods that a pipeline performs, in order, with the
  arguments of each. The source keeps no such list: the loops below record it beside
  what they compute.
\<close>

datatype ('v, 'cd, 'cdl) backend_call =
    SubinstallationCall TemplateExecutor Blueprint "'cd option" "'cdl option"
      "string \<Rightarrow> 'v iface option"
  | DeployCall TemplateExecutor Blueprint "'cd option" "'cdl option"
      "string \<Rightarrow> 'v iface option"
  | ExportCall TemplateExecutor Blueprint "'v iface"

fun call_values :: "('v, 'cd, 'cdl) backend_call \<Rightarrow> (string \<Rightarrow> 'v iface option) option" where
  "call_values (SubinstallationCall e b c l v) = Some v"
| "call_values (DeployCall e b c l v) = Some v"
| "call_values (ExportCall e b x) = None"

subsection \<open>Serialization of the component descriptor\<close>

text \<open>
  The collaborators of the value context: \<^verbatim>\<open>codec.Encode\<close> on a descriptor and on a
  descriptor list, \<^verbatim>\<open>json.Unmarshal\<close> into an \<^verbatim>\<open>interface{}\<close>, and
  \<^verbatim>\<open>utils.JSONSerializeToGenericObject\<close> on the blueprint definition and on the component
  descriptor definition of the installation. Each may fail.
\<close>

record ('v, 'bd, 'cdd, 'cd, 'cdl) Serializer =
  Encode_cd :: "'cd \<Rightarrow> error + string"
  Encode_cdList :: "'cdl \<Rightarrow> error + string"
  Unmarshal :: "string \<Rightarrow> error + 'v iface"
  JSONSerialize_blueprint :: "'bd \<Rightarrow> error + 'v iface"
  JSONSerialize_cdDef :: "'cdd \<Rightarrow> error + 'v iface"

definition serializeComponentDescriptor ::
  "('v, 'bd, 'cdd, 'cd, 'cdl) Serializer \<Rightarrow> 'cd option \<Rightarrow> error + 'v iface" where
  "serializeComponentDescriptor ser cd =
     (case cd of
        None \<Rightarrow> Inr Nil
      | Some d \<Rightarrow>
          (case Encode_cd ser d of
             Inl err \<Rightarrow> Inl err
           | Inr data \<Rightarrow>
               (case Unmarshal ser data of
                  Inl err \<Rightarrow> Inl err
                | Inr val \<Rightarrow> Inr val)))"

definition serializeComponentDescriptorList ::
  "('v, 'bd, 'cdd, 'cd, 'cdl) Serializer \<Rightarrow> 'cdl option \<Rightarrow> error + 'v iface" where
  "serializeComponentDescriptorList ser cd =
     (case cd of
        None \<Rightarrow> Inr Nil
      | Some d \<Rightarrow>
          (case Encode_cdList ser d of
             Inl err \<Rightarrow> Inl err
           | Inr data \<Rightarrow>
               (case Unmarshal ser data of
                  Inl err \<Rightarrow> Inl err
                | Inr val \<Rightarrow> Inr val)))"

subsection \<open>The value context\<close>

text \<open>
  \<^verbatim>\<open>TemplateSubinstallationExecutions\<close> and \<^verbatim>\<open>TemplateDeployExecutions\<close> start with the same
  statements, which build the map \<^verbatim>\<open>values\<close> or return an error.
\<close>

definition templateValues ::
  "('v, 'bd, 'cdd, 'cd, 'cdl) Serializer \<Rightarrow> ('v, 'bd, 'cdd, 'cd, 'cdl) DeployExecutionOptions \<Rightarrow>
   error + (string \<Rightarrow> 'v iface option)" where
  "templateValues ser opts =
     (case serializeComponentDescriptor ser (ComponentDescriptor opts) of
        Inl err \<Rightarrow> Inl (Wrapped ''error during serializing of the resolved components'' err)
      | Inr component \<Rightarrow>
     (case serializeComponentDescriptorList ser (ComponentDescriptors opts) of
        Inl err \<Rightarrow> Inl (Wrapped ''error during serializing of the component descriptor'' err)
      | Inr components \<Rightarrow>
     (let values = [''imports'' \<mapsto> StringMap (Imports opts),
                    ''cd'' \<mapsto> component,
                    ''components'' \<mapsto> components]
      in case Installation opts of
           None \<Rightarrow> Inr values
         | Some inst \<Rightarrow>
             (case JSONSerialize_blueprint ser (Spec_Blueprint (Spec inst)) of
                Inl err \<Rightarrow> Inl (Message ''unable to serialize the blueprint definition'')
              | Inr blueprintDef \<Rightarrow>
                  (let values = values(''blueprint'' \<mapsto> blueprintDef)
                   in case Spec_ComponentDescriptor (Spec inst) of
                        None \<Rightarrow> Inr values
                      | Some cdRef \<Rightarrow>
                          (case JSONSerialize_cdDef ser cdRef of
                             Inl err \<Rightarrow>
                               Inl (Message
                                 ''unable to serialize the component descriptor definition'')
                           | Inr cdDef \<Rightarrow>
                               Inr (values(''componentDescriptorDef'' \<mapsto> cdDef))))))))"

subsection \<open>Validation of the deploy item list\<close>

text \<open>
  The collaborators of \<^verbatim>\<open>validateDeployItemList\<close>: the conversion of the list to its
  internal representation, which may fail, and the rules of
  \<^verbatim>\<open>validation.ValidateDeployItemTemplateList\<close>, which return the list of field errors found
  under a field path.
\<close>

record ('d, 'c) Validation =
  Convert_DeployItemTemplateList :: "'d list \<Rightarrow> error + 'c list"
  ValidateDeployItemTemplateList :: "string \<Rightarrow> 'c list \<Rightarrow> (string \<times> string) list"

text \<open>
  Modelled from the spec: \<^verbatim>\<open>ErrorList.ToAggregate\<close> is not part of the sources at hand. The
  validator returns "an aggregate of all violations found, not just the first", or nil
  when there is none.
\<close>

definition ToAggregate :: "(string \<times> string) list \<Rightarrow> error option" where
  "ToAggregate errs = (if errs = [] then None else Some (Aggregate errs))"

definition validateDeployItemList ::
  "('d, 'c) Validation \<Rightarrow> string \<Rightarrow> 'd list \<Rightarrow> error option" where
  "validateDeployItemList val fldPath list =
     (case Convert_DeployItemTemplateList val list of
        Inl err \<Rightarrow> Some err
      | Inr coreList \<Rightarrow> ToAggregate (ValidateDeployItemTemplateList val fldPath coreList))"

subsection \<open>The pipelines\<close>

text \<open>
  Each loop runs over the executors that are left, with the list aggregated so far and the
  backend calls made so far; it returns the calls made and what the function returns at
  that point: \<open>Inl err\<close> for \<^verbatim>\<open>return nil, err\<close>.
\<close>

fun subinstallationLoop ::
  "('v, 'cd, 'cdl, 'i, 'd) Templater \<Rightarrow> ('v, 'bd, 'cdd, 'cd, 'cdl) DeployExecutionOptions \<Rightarrow>
   (string \<Rightarrow> 'v iface option) \<Rightarrow> TemplateExecutor list \<Rightarrow> 'i list \<Rightarrow>
   ('v, 'cd, 'cdl) backend_call list \<Rightarrow>
   ('v, 'cd, 'cdl) backend_call list \<times> (error + 'i list)" where
  "subinstallationLoop o' opts values [] installationTemplates calls =
     (calls, Inr installationTemplates)"
| "subinstallationLoop o' opts values (tmplExec # rest) installationTemplates calls =
     (case impl o' (Type tmplExec) of
        None \<Rightarrow> (calls, Inl (UnknownTemplateType (Type tmplExec)))
      | Some b \<Rightarrow>
          (let calls = calls @ [SubinstallationCall tmplExec (Blueprint opts)
                 (ComponentDescriptor opts) (ComponentDescriptors opts) values]
           in case impl_TemplateSubinstallationExecutions b tmplExec (Blueprint opts)
                 (ComponentDescriptor opts) (ComponentDescriptors opts) values of
                Inl err \<Rightarrow> (calls, Inl err)
              | Inr output \<Rightarrow>
                  (case Subinstallations output of
                     None \<Rightarrow> subinstallationLoop o' opts values rest installationTemplates calls
                   | Some items \<Rightarrow>
                       subinstallationLoop o' opts values rest
                         (installationTemplates @ items) calls)))"

definition TemplateSubinstallationExecutions_run ::
  "('v, 'bd, 'cdd, 'cd, 'cdl) Serializer \<Rightarrow> ('v, 'cd, 'cdl, 'i, 'd) Templater \<Rightarrow>
   ('v, 'bd, 'cdd, 'cd, 'cdl) DeployExecutionOptions \<Rightarrow>
   ('v, 'cd, 'cdl) backend_call list \<times> (error + 'i list)" where
  "TemplateSubinstallationExecutions_run ser o' opts =
     (case templateValues ser opts of
        Inl err \<Rightarrow> ([], Inl err)
      | Inr values \<Rightarrow>
          subinstallationLoop o' opts values
            (SubinstallationExecutions (Info (Blueprint opts))) [] [])"

definition TemplateSubinstallationExecutions ::
  "('v, 'bd, 'cdd, 'cd, 'cdl) Serializer \<Rightarrow> ('v, 'cd, 'cdl, 'i, 'd) Templater \<Rightarrow>
   ('v, 'bd, 'cdd, 'cd, 'cdl) DeployExecutionOptions \<Rightarrow> error + 'i list" where
  "TemplateSubinstallationExecutions ser o' opts =
     snd (TemplateSubinstallationExecutions_run ser o' opts)"

fun deployLoop ::
  "('v, 'cd, 'cdl, 'i, 'd) Templater \<Rightarrow> ('v, 'bd, 'cdd, 'cd, 'cdl) DeployExecutionOptions \<Rightarrow>
   (string \<Rightarrow> 'v iface option) \<Rightarrow> TemplateExecutor list \<Rightarrow> 'd list \<Rightarrow>
   ('v, 'cd, 'cdl) backend_call list \<Rightarrow>
   ('v, 'cd, 'cdl) backend_call list \<times> (error + 'd list)" where
  "deployLoop o' opts values [] deployItemTemplateList calls =
     (calls, Inr deployItemTemplateList)"
| "deployLoop o' opts values (tmplExec # rest) deployItemTemplateList calls =
     (case impl o' (Type tmplExec) of
        None \<Rightarrow> (calls, Inl (UnknownTemplateType (Type tmplExec)))
      | Some b \<Rightarrow>
          (let calls = calls @ [DeployCall tmplExec (Blueprint opts)
                 (ComponentDescriptor opts) (ComponentDescriptors opts) values]
           in case impl_TemplateDeployExecutions b tmplExec (Blueprint opts)
                 (ComponentDescriptor opts) (ComponentDescriptors opts) values of
                Inl err \<Rightarrow> (calls, Inl err)
              | Inr output \<Rightarrow>
                  (case DeployItems output of
                     None \<Rightarrow> deployLoop o' opts values rest deployItemTemplateList calls
                   | Some items \<Rightarrow>
                       deployLoop o' opts values rest (deployItemTemplateList @ items) calls)))"

definition TemplateDeployExecutions_run ::
  "('v, 'bd, 'cdd, 'cd, 'cdl) Serializer \<Rightarrow> ('d, 'c) Validation \<Rightarrow>
   ('v, 'cd, 'cdl, 'i, 'd) Templater \<Rightarrow> ('v, 'bd, 'cdd, 'cd, 'cdl) DeployExecutionOptions \<Rightarrow>
   ('v, 'cd, 'cdl) backend_call list \<times> (error + 'd list)" where
  "TemplateDeployExecutions_run ser val o' opts =
     (case templateValues ser opts of
        Inl err \<Rightarrow> ([], Inl err)
      | Inr values \<Rightarrow>
          (case deployLoop o' opts values (DeployExecutions (Info (Blueprint opts))) [] [] of
             (calls, Inl err) \<Rightarrow> (calls, Inl err)
           | (calls, Inr deployItemTemplateList) \<Rightarrow>
               (case validateDeployItemList val ''deployExecutions'' deployItemTemplateList of
                  Some err \<Rightarrow> (calls, Inl err)
                | None \<Rightarrow> (calls, Inr deployItemTemplateList))))"

definition TemplateDeployExecutions ::
  "('v, 'bd, 'cdd, 'cd, 'cdl) Serializer \<Rightarrow> ('d, 'c) Validation \<Rightarrow>
   ('v, 'cd, 'cdl, 'i, 'd) Templater \<Rightarrow> ('v, 'bd, 'cdd, 'cd, 'cdl) DeployExecutionOptions \<Rightarrow>
   error + 'd list" where
  "TemplateDeployExecutions ser val o' opts = snd (TemplateDeployExecutions_run ser val o' opts)"

text \<open>
  Modelled from the spec: \<^verbatim>\<open>utils.MergeMaps\<close> is not part of the sources at hand. The export
  pipeline merges "the returned export map into a running accumulator using right-biased
  key overwrite (later executor overwrites earlier value for the same export name).
  Absent/empty maps are no-ops."
\<close>

definition MergeMaps ::
  "(string \<Rightarrow> 'v iface option) \<Rightarrow> (string \<Rightarrow> 'v iface option) \<Rightarrow> (string \<Rightarrow> 'v iface option)" where
  "MergeMaps a b = (\<lambda>key. case b key of Some v \<Rightarrow> Some v | None \<Rightarrow> a key)"

fun exportLoop ::
  "('v, 'cd, 'cdl, 'i, 'd) Templater \<Rightarrow> Blueprint \<Rightarrow> 'v iface \<Rightarrow> TemplateExecutor list \<Rightarrow>
   (string \<Rightarrow> 'v iface option) \<Rightarrow> ('v, 'cd, 'cdl) backend_call list \<Rightarrow>
   ('v, 'cd, 'cdl) backend_call list \<times> (error + (string \<Rightarrow> 'v iface option))" where
  "exportLoop o' blueprint exports [] exportData calls = (calls, Inr exportData)"
| "exportLoop o' blueprint exports (tmplExec # rest) exportData calls =
     (case impl o' (Type tmplExec) of
        None \<Rightarrow> (calls, Inl (UnknownTemplateType (Type tmplExec)))
      | Some b \<Rightarrow>
          (let calls = calls @ [ExportCall tmplExec blueprint exports]
           in case impl_TemplateExportExecutions b tmplExec blueprint exports of
                Inl err \<Rightarrow> (calls, Inl err)
              | Inr output \<Rightarrow>
                  exportLoop o' blueprint exports rest
                    (MergeMaps exportData (Exports output)) calls))"

definition TemplateExportExecutions_run ::
  "('v, 'cd, 'cdl, 'i, 'd) Templater \<Rightarrow> Blueprint \<Rightarrow> 'v iface \<Rightarrow>
   ('v, 'cd, 'cdl) backend_call list \<times> (error + (string \<Rightarrow> 'v iface option))" where
  "TemplateExportExecutions_run o' blueprint exports =
     exportLoop o' blueprint exports (ExportExecutions (Info blueprint)) Map.empty []"

definition TemplateExportExecutions ::
  "('v, 'cd, 'cdl, 'i, 'd) Templater \<Rightarrow> Blueprint \<Rightarrow> 'v iface \<Rightarrow>
   error + (string \<Rightarrow> 'v iface option)" where
  "TemplateExportExecutions o' blueprint exports =
     snd (TemplateExportExecutions_run o' blueprint exports)"

section \<open>Execution status and export publication (package execution)\<close>

subsection \<open>Executions\<close>

text \<open>
  Modelled from the spec: the declarations of \<^verbatim>\<open>lsv1alpha1.Execution\<close>, its status and
  \<^verbatim>\<open>lsv1alpha1.Condition\<close> are not part of the sources at hand. An execution has a current
  phase, "an ordered set of conditions (each with type, status, reason, timestamp), and
  an optional reference to a persisted export object".
\<close>

record ObjectReference =
  ref_Name :: string
  ref_Namespace :: string

record Condition =
  cond_Type :: string
  cond_Status :: string
  cond_Reason :: string
  cond_Timestamp :: nat

record ExecutionStatus =
  Phase :: string
  Conditions :: "Condition list"
  ExportReference :: "ObjectReference option"

record Execution =
  exec_Name :: string
  exec_Namespace :: string
  Status :: ExecutionStatus

text \<open>
  Modelled from the spec: \<^verbatim>\<open>lsv1alpha1helper.MergeConditions\<close> is not part of the sources at
  hand. It "merges the supplied conditions into the execution's existing condition set by
  condition-type key (replace-on-same-type, append-if-new-type, preserving relative order
  of untouched conditions)". The supplied conditions are merged one after the other.
\<close>

fun mergeCondition :: "Condition list \<Rightarrow> Condition \<Rightarrow> Condition list" where
  "mergeCondition [] updatedCondition = [updatedCondition]"
| "mergeCondition (cond # conditions) updatedCondition =
     (if cond_Type cond = cond_Type updatedCondition then updatedCondition # conditions
      else cond # mergeCondition conditions updatedCondition)"

definition MergeConditions :: "Condition list \<Rightarrow> Condition list \<Rightarrow> Condition list" where
  "MergeConditions conditions updatedConditions =
     foldl mergeCondition conditions updatedConditions"

subsection \<open>Data objects and their builder\<close>

text \<open>
  Modelled from the spec: the package \<^verbatim>\<open>dataobjects\<close> and the helpers
  \<^verbatim>\<open>DataObjectSourceFromExecution\<close> and \<^verbatim>\<open>SetOwnerReference\<close> are not part of the sources at
  hand. An export object is "a namespaced, named persisted record holding the merged
  export map, linked to its owning Execution by both an owner reference and a logical
  source tag"; it is built "tagged with the execution's namespace and a source/context
  identifier derived from the execution's identity", under a name derived from that
  identifier. The body of an object is all of it but its name and namespace.
\<close>

record DataObjectBody =
  do_Source :: string
  do_Context :: string
  do_Owner :: "(string \<times> string) option"
  do_Data :: string

record DataObject =
  do_Name :: string
  do_Namespace :: string
  do_Body :: DataObjectBody

record 'v DataObjectBuilder =
  b_Namespace :: string
  b_Source :: string
  b_Context :: string
  b_Data :: "'v iface"

text \<open>
  What is left open about these helpers: how the source identifier and the object name
  are derived, how the data is encoded (it may fail), and when setting the owner
  reference fails.
\<close>

record 'v Helpers =
  SourceOf :: "string \<Rightarrow> string \<Rightarrow> string"
  GenerateName :: "string \<Rightarrow> string"
  Marshal :: "'v iface \<Rightarrow> error + string"
  OwnerReferenceFault :: "Execution \<Rightarrow> DataObject \<Rightarrow> error option"

text \<open>
  Modelled from the spec: \<^verbatim>\<open>DataObjectSourceFromExecution\<close>, the builder's \<^verbatim>\<open>Build\<close> and
  \<^verbatim>\<open>Apply\<close>, and \<^verbatim>\<open>SetOwnerReference\<close> are not part of the sources at hand. The source
  identifier is "derived from the execution's identity"; \<^verbatim>\<open>Build\<close> makes the object under
  its derived name in the builder's namespace; \<^verbatim>\<open>Apply\<close> overwrites the payload and the tags
  of an object in place; \<^verbatim>\<open>SetOwnerReference\<close> attaches "the Execution as an owning
  reference".
\<close>

definition DataObjectSourceFromExecution :: "'v Helpers \<Rightarrow> Execution \<Rightarrow> string" where
  "DataObjectSourceFromExecution h exec = SourceOf h (exec_Namespace exec) (exec_Name exec)"

definition Build :: "'v Helpers \<Rightarrow> 'v DataObjectBuilder \<Rightarrow> error + DataObject" where
  "Build h do =
     (case Marshal h (b_Data do) of
        Inl err \<Rightarrow> Inl err
      | Inr raw_data \<Rightarrow>
          Inr \<lparr>do_Name = GenerateName h (b_Context do), do_Namespace = b_Namespace do,
               do_Body = \<lparr>do_Source = b_Source do, do_Context = b_Context do,
                          do_Owner = None, do_Data = raw_data\<rparr>\<rparr>)"

definition Apply :: "'v Helpers \<Rightarrow> 'v DataObjectBuilder \<Rightarrow> DataObject \<Rightarrow> error + DataObject" where
  "Apply h do raw =
     (case Marshal h (b_Data do) of
        Inl err \<Rightarrow> Inl err
      | Inr raw_data \<Rightarrow>
          Inr (raw\<lparr>do_Body := (do_Body raw)\<lparr>do_Source := b_Source do,
                 do_Context := b_Context do, do_Data := raw_data\<rparr>\<rparr>))"

definition SetOwnerReference :: "'v Helpers \<Rightarrow> Execution \<Rightarrow> DataObject \<Rightarrow> error + DataObject" where
  "SetOwnerReference h owner raw =
     (case OwnerReferenceFault h owner raw of
        Some err \<Rightarrow> Inl err
      | None \<Rightarrow>
          Inr (raw\<lparr>do_Body := (do_Body raw)\<lparr>do_Owner :=
                 Some (exec_Namespace owner, exec_Name owner)\<rparr>\<rparr>))"

subsection \<open>The writer\<close>

text \<open>
  The storage collaborator \<^verbatim>\<open>o.Writer()\<close> over a store \<open>'s\<close>. A call returns its error (or
  none), the store it leaves and, for \<^verbatim>\<open>CreateOrUpdateDataObject\<close>, the object as the call
  leaves it in \<^verbatim>\<open>raw\<close>.
\<close>

record 's Writer =
  UpdateExecutionStatus :: "'s \<Rightarrow> Execution \<Rightarrow> error option \<times> 's"
  CreateOrUpdateDataObject ::
    "'s \<Rightarrow> DataObject \<Rightarrow> (DataObject \<Rightarrow> error + DataObject) \<Rightarrow> error option \<times> 's \<times> DataObject"

text \<open>
  Modelled from the spec: the writer itself is not part of the sources at hand. It
  "exposes \<^verbatim>\<open>updateExecutionStatus(execution) -> error\<close> and
  \<^verbatim>\<open>createOrUpdateObject(object, mutateFn) -> (object, error)\<close>, both assumed atomic at the
  single-object granularity"; the upsert is by name and namespace: "if an object with the
  same derived name already exists, its payload is overwritten in place; otherwise a new
  one is created". The store holds the object bodies and the execution statuses by
  namespace and name; \<open>statusFault\<close> and \<open>objectFault\<close> say when a write fails.
\<close>

record Store =
  dataObjects :: "string \<times> string \<Rightarrow> DataObjectBody option"
  executions :: "string \<times> string \<Rightarrow> ExecutionStatus option"

text \<open>
  Modelled from the spec: the two operations of that writer. The status of an execution is
  written under the namespace and name of the execution. The upsert reads the object
  stored under the name and namespace of \<^verbatim>\<open>raw\<close> if there is one, applies the function it is
  given, and writes the result under that name and namespace.
\<close>

definition storeUpdateExecutionStatus ::
  "(Execution \<Rightarrow> error option) \<Rightarrow> Store \<Rightarrow> Execution \<Rightarrow> error option \<times> Store" where
  "storeUpdateExecutionStatus statusFault s exec =
     (case statusFault exec of
        Some err \<Rightarrow> (Some err, s)
      | None \<Rightarrow>
          (None, s\<lparr>executions :=
             (executions s)((exec_Namespace exec, exec_Name exec) \<mapsto> Status exec)\<rparr>))"

definition storeCreateOrUpdateDataObject ::
  "(DataObject \<Rightarrow> error option) \<Rightarrow> Store \<Rightarrow> DataObject \<Rightarrow>
   (DataObject \<Rightarrow> error + DataObject) \<Rightarrow> error option \<times> Store \<times> DataObject" where
  "storeCreateOrUpdateDataObject objectFault s raw mutate =
     (let key = (do_Namespace raw, do_Name raw);
          obj = (case dataObjects s key of
                   None \<Rightarrow> raw
                 | Some existing \<Rightarrow> raw\<lparr>do_Body := existing\<rparr>)
      in case mutate obj of
           Inl err \<Rightarrow> (Some err, s, obj)
         | Inr obj \<Rightarrow>
             (case objectFault obj of
                Some err \<Rightarrow> (Some err, s, obj)
              | None \<Rightarrow> (None, s\<lparr>dataObjects := (dataObjects s)(key \<mapsto> do_Body obj)\<rparr>, obj)))"

definition storeWriter ::
  "(Execution \<Rightarrow> error option) \<Rightarrow> (DataObject \<Rightarrow> error option) \<Rightarrow> Store Writer" where
  "storeWriter statusFault objectFault =
     \<lparr>UpdateExecutionStatus = storeUpdateExecutionStatus statusFault,
      CreateOrUpdateDataObject = storeCreateOrUpdateDataObject objectFault\<rparr>"

subsection \<open>The operations\<close>

text \<open>
  An operation works on the execution \<^verbatim>\<open>o.exec\<close>, which it mutates in memory, and on the
  store behind the writer; it returns its error (or none), the execution and the store.
  The log is left out.
\<close>

definition UpdateStatus ::
  "'s Writer \<Rightarrow> Execution \<Rightarrow> 's \<Rightarrow> string \<Rightarrow> Condition list \<Rightarrow> error option \<times> Execution \<times> 's" where
  "UpdateStatus w exec s phase updatedConditions =
     (let exec = exec\<lparr>Status := (Status exec)\<lparr>Phase := phase\<rparr>\<rparr>;
          exec = exec\<lparr>Status := (Status exec)\<lparr>Conditions :=
                   MergeConditions (Conditions (Status exec)) updatedConditions\<rparr>\<rparr>
      in case UpdateExecutionStatus w s exec of
           (Some err, s) \<Rightarrow> (Some err, exec, s)
         | (None, s) \<Rightarrow> (None, exec, s))"

text \<open>
  The builder \<^verbatim>\<open>do\<close> of \<^verbatim>\<open>CreateOrUpdateExportReference\<close> and the function that it hands
  to \<^verbatim>\<open>CreateOrUpdateDataObject\<close>.
\<close>

definition exportDataObject :: "'v Helpers \<Rightarrow> Execution \<Rightarrow> 'v iface \<Rightarrow> 'v DataObjectBuilder" where
  "exportDataObject h exec values =
     \<lparr>b_Namespace = exec_Namespace exec,
      b_Source = DataObjectSourceFromExecution h exec,
      b_Context = DataObjectSourceFromExecution h exec,
      b_Data = values\<rparr>"

definition mutateExport ::
  "'v Helpers \<Rightarrow> Execution \<Rightarrow> 'v DataObjectBuilder \<Rightarrow> DataObject \<Rightarrow> error + DataObject" where
  "mutateExport h exec do raw =
     (case SetOwnerReference h exec raw of
        Inl err \<Rightarrow> Inl err
      | Inr raw \<Rightarrow> Apply h do raw)"

definition CreateOrUpdateExportReference ::
  "'s Writer \<Rightarrow> 'v Helpers \<Rightarrow> Execution \<Rightarrow> 's \<Rightarrow> 'v iface \<Rightarrow> error option \<times> Execution \<times> 's" where
  "CreateOrUpdateExportReference w h exec s values =
     (let do = exportDataObject h exec values
      in case Build h do of
           Inl err \<Rightarrow> (Some err, exec, s)
         | Inr raw \<Rightarrow>
             (case CreateOrUpdateDataObject w s raw (mutateExport h exec do) of
                (Some err, s, raw) \<Rightarrow> (Some err, exec, s)
              | (None, s, raw) \<Rightarrow>
                  (let exec = exec\<lparr>Status := (Status exec)\<lparr>ExportReference :=
                         Some \<lparr>ref_Name = do_Name raw, ref_Namespace = do_Namespace raw\<rparr>\<rparr>\<rparr>
                   in UpdateStatus w exec s (Phase (Status exec)) [])))"

section \<open>Notions used by the properties\<close>

text \<open>
  What one executor contributes to a pipeline whose value context is \<open>values\<close>: whether its
  type is registered and its backend succeeds, and the items of its output (none for a nil
  list).
\<close>

definition subinstallationSucceeds ::
  "('v, 'cd, 'cdl, 'i, 'd) Templater \<Rightarrow> ('v, 'bd, 'cdd, 'cd, 'cdl) DeployExecutionOptions \<Rightarrow>
   (string \<Rightarrow> 'v iface option) \<Rightarrow> TemplateExecutor \<Rightarrow> bool" where
  "subinstallationSucceeds o' opts values tmplExec =
     (case impl o' (Type tmplExec) of
        None \<Rightarrow> False
      | Some b \<Rightarrow>
          (case impl_TemplateSubinstallationExecutions b tmplExec (Blueprint opts)
                  (ComponentDescriptor opts) (ComponentDescriptors opts) values of
             Inl err \<Rightarrow> False
           | Inr output \<Rightarrow> True))"

definition executorSubinstallations ::
  "('v, 'cd, 'cdl, 'i, 'd) Templater \<Rightarrow> ('v, 'bd, 'cdd, 'cd, 'cdl) DeployExecutionOptions \<Rightarrow>
   (string \<Rightarrow> 'v iface option) \<Rightarrow> TemplateExecutor \<Rightarrow> 'i list" where
  "executorSubinstallations o' opts values tmplExec =
     (case impl o' (Type tmplExec) of
        None \<Rightarrow> []
      | Some b \<Rightarrow>
          (case impl_TemplateSubinstallationExecutions b tmplExec (Blueprint opts)
                  (ComponentDescriptor opts) (ComponentDescriptors opts) values of
             Inl err \<Rightarrow> []
           | Inr output \<Rightarrow> (case Subinstallations output of None \<Rightarrow> [] | Some items \<Rightarrow> items)))"

definition deploySucceeds ::
  "('v, 'cd, 'cdl, 'i, 'd) Templater \<Rightarrow> ('v, 'bd, 'cdd, 'cd, 'cdl) DeployExecutionOptions \<Rightarrow>
   (string \<Rightarrow> 'v iface option) \<Rightarrow> TemplateExecutor \<Rightarrow> bool" where
  "deploySucceeds o' opts values tmplExec =
     (case impl o' (Type tmplExec) of
        None \<Rightarrow> False
      | Some b \<Rightarrow>
          (case impl_TemplateDeployExecutions b tmplExec (Blueprint opts)
                  (ComponentDescriptor opts) (ComponentDescriptors opts) values of
             Inl err \<Rightarrow> False
           | Inr output \<Rightarrow> True))"

definition executorDeployItems ::
  "('v, 'cd, 'cdl, 'i, 'd) Templater \<Rightarrow> ('v, 'bd, 'cdd, 'cd, 'cdl) DeployExecutionOptions \<Rightarrow>
   (string \<Rightarrow> 'v iface option) \<Rightarrow> TemplateExecutor \<Rightarrow> 'd list" where
  "executorDeployItems o' opts values tmplExec =
     (case impl o' (Type tmplExec) of
        None \<Rightarrow> []
      | Some b \<Rightarrow>
          (case impl_TemplateDeployExecutions b tmplExec (Blueprint opts)
                  (ComponentDescriptor opts) (ComponentDescriptors opts) values of
             Inl err \<Rightarrow> []
           | Inr output \<Rightarrow> (case DeployItems output of None \<Rightarrow> [] | Some items \<Rightarrow> items)))"

definition exportSucceeds ::
  "('v, 'cd, 'cdl, 'i, 'd) Templater \<Rightarrow> Blueprint \<Rightarrow> 'v iface \<Rightarrow> TemplateExecutor \<Rightarrow> bool" where
  "exportSucceeds o' blueprint exports tmplExec =
     (case impl o' (Type tmplExec) of
        None \<Rightarrow> False
      | Some b \<Rightarrow>
          (case impl_TemplateExportExecutions b tmplExec blueprint exports of
             Inl err \<Rightarrow> False
           | Inr output \<Rightarrow> True))"

text \<open>The index of the first condition of a type, when there is one.\<close>

fun conditionIndex :: "Condition list \<Rightarrow> string \<Rightarrow> nat option" where
  "conditionIndex [] t = None"
| "conditionIndex (cond # conditions) t =
     (if cond_Type cond = t then Some 0
      else map_option Suc (conditionIndex conditions t))"

subsection \<open>A sample installation\<close>

text \<open>
  A registry with one backend of type \<open>GoTemplate\<close>. An item is its name. A sub-installation
  executor named \<open>none\<close> returns a nil list, any other one two items; a deploy executor
  returns two items, named as the executor and as its \<open>File\<close>; an export executor named
  \<open>first\<close> exports \<open>replicas\<close>, any other one \<open>replicas\<close> and \<open>name\<close>. The validation rule
  is that an item has a name; it is checked on the first four items of a list.
\<close>

definition sampleBackend :: "(string, unit, unit, string, string) ExecutionTemplater" where
  "sampleBackend =
     \<lparr>impl_Type = ''GoTemplate'',
      impl_TemplateSubinstallationExecutions = (\<lambda>e b c l v.
         if Name e = ''none'' then Inr \<lparr>Subinstallations = None\<rparr>
         else Inr \<lparr>Subinstallations = Some [Name e @ ''1'', Name e @ ''2'']\<rparr>),
      impl_TemplateDeployExecutions = (\<lambda>e b c l v.
         Inr \<lparr>DeployItems = Some [Name e, File e]\<rparr>),
      impl_TemplateExportExecutions = (\<lambda>e b x.
         if Name e = ''first'' then Inr \<lparr>Exports = [''replicas'' \<mapsto> Generic ''3'']\<rparr>
         else Inr \<lparr>Exports = [''replicas'' \<mapsto> Generic ''5'', ''name'' \<mapsto> Generic ''x'']\<rparr>)\<rparr>"

definition sampleTemplater :: "(string, unit, unit, string, string) Templater" where
  "sampleTemplater = New [sampleBackend]"

definition sampleSerializer :: "(string, unit, unit, unit, unit) Serializer" where
  "sampleSerializer =
     \<lparr>Encode_cd = (\<lambda>d. Inr ''cd''), Encode_cdList = (\<lambda>d. Inr ''list''),
      Unmarshal = (\<lambda>data. Inr (Generic data)),
      JSONSerialize_blueprint = (\<lambda>d. Inr (Generic ''blueprint'')),
      JSONSerialize_cdDef = (\<lambda>d. Inr (Generic ''ref''))\<rparr>"

definition sampleValidation :: "(string, string) Validation" where
  "sampleValidation =
     \<lparr>Convert_DeployItemTemplateList = (\<lambda>list. Inr list),
      ValidateDeployItemTemplateList = (\<lambda>fldPath coreList.
         map (\<lambda>(index, item). (fldPath @ index, ''Required value''))
           (filter (\<lambda>(index, item). item = [])
              (zip [''[0]'', ''[1]'', ''[2]'', ''[3]''] coreList)))\<rparr>"

definition executor :: "string \<Rightarrow> string \<Rightarrow> string \<Rightarrow> TemplateExecutor" where
  "executor n t f = \<lparr>Name = n, Type = t, File = f\<rparr>"

definition sampleBlueprint :: Blueprint where
  "sampleBlueprint =
     \<lparr>Info = \<lparr>SubinstallationExecutions =
                 [executor ''a'' ''GoTemplate'' [], executor ''none'' ''GoTemplate'' [],
                  executor ''b'' ''GoTemplate'' []],
               DeployExecutions =
                 [executor ''d'' ''GoTemplate'' ''a'', executor ''e'' ''GoTemplate'' ''b''],
               ExportExecutions =
                 [executor ''first'' ''GoTemplate'' [], executor ''second'' ''GoTemplate'' []]\<rparr>\<rparr>"

definition sampleOptions ::
  "Blueprint \<Rightarrow> (string, unit, unit, unit, unit) DeployExecutionOptions" where
  "sampleOptions blueprint =
     \<lparr>Imports = Map.empty, Installation = None, Blueprint = blueprint,
      ComponentDescriptor = None, ComponentDescriptors = None\<rparr>"

definition sampleValues :: "string \<Rightarrow> string iface option" where
  "sampleValues = [''imports'' \<mapsto> StringMap Map.empty, ''cd'' \<mapsto> Nil, ''components'' \<mapsto> Nil]"

text \<open>A blueprint whose second executor of each list has a type that is not registered.\<close>

definition unregisteredBlueprint :: Blueprint where
  "unregisteredBlueprint =
     \<lparr>Info = \<lparr>SubinstallationExecutions =
                 [executor ''a'' ''GoTemplate'' [], executor ''s'' ''Spiff'' []],
               DeployExecutions =
                 [executor ''d'' ''GoTemplate'' ''a'', executor ''s'' ''Spiff'' ''b''],
               ExportExecutions =
                 [executor ''first'' ''GoTemplate'' [], executor ''s'' ''Spiff'' []]\<rparr>\<rparr>"

text \<open>A blueprint whose deploy executors succeed with items that have no name.\<close>

definition namelessBlueprint :: Blueprint where
  "namelessBlueprint =
     \<lparr>Info = \<lparr>SubinstallationExecutions = [],
               DeployExecutions =
                 [executor ''d'' ''GoTemplate'' [], executor ''e'' ''GoTemplate'' []],
               ExportExecutions = []\<rparr>\<rparr>"

text \<open>
  Options with an owning installation that refers to a component descriptor, no resolved
  component descriptor and a descriptor list, and the value context built from them.
\<close>

definition installedOptions :: "(string, unit, unit, unit, unit) DeployExecutionOptions" where
  "installedOptions =
     \<lparr>Imports = Map.empty,
      Installation = Some \<lparr>Spec = \<lparr>Spec_Blueprint = (), Spec_ComponentDescriptor = Some ()\<rparr>\<rparr>,
      Blueprint = sampleBlueprint, ComponentDescriptor = None, ComponentDescriptors = Some ()\<rparr>"

definition installedValues :: "string \<Rightarrow> string iface option" where
  "installedValues =
     [''imports'' \<mapsto> StringMap Map.empty, ''cd'' \<mapsto> Nil, ''components'' \<mapsto> Generic ''list'',
      ''blueprint'' \<mapsto> Generic ''blueprint'', ''componentDescriptorDef'' \<mapsto> Generic ''ref'']"

text \<open>
  A second registry, which also has a backend of type \<open>Broken\<close> whose methods fail, and a
  blueprint whose second executor of each list is of that type.
\<close>

definition brokenBackend :: "(string, unit, unit, string, string) ExecutionTemplater" where
  "brokenBackend =
     \<lparr>impl_Type = ''Broken'',
      impl_TemplateSubinstallationExecutions = (\<lambda>e b c l v. Inl (External ''render'')),
      impl_TemplateDeployExecutions = (\<lambda>e b c l v. Inl (External ''render'')),
      impl_TemplateExportExecutions = (\<lambda>e b x. Inl (External ''render''))\<rparr>"

definition brokenTemplater :: "(string, unit, unit, string, string) Templater" where
  "brokenTemplater = New [sampleBackend, brokenBackend]"

definition brokenBlueprint :: Blueprint where
  "brokenBlueprint =
     \<lparr>Info = \<lparr>SubinstallationExecutions =
                 [executor ''a'' ''GoTemplate'' [], executor ''f'' ''Broken'' [],
                  executor ''b'' ''GoTemplate'' []],
               DeployExecutions =
                 [executor ''d'' ''GoTemplate'' ''a'', executor ''f'' ''Broken'' [],
                  executor ''e'' ''GoTemplate'' ''b''],
               ExportExecutions =
                 [executor ''first'' ''GoTemplate'' [], executor ''f'' ''Broken'' [],
                  executor ''second'' ''GoTemplate'' []]\<rparr>\<rparr>"

text \<open>
  A registry with one backend of type \<open>Probe\<close>, whose output tells what it is given: the
  items of its sub-installation and deploy methods say whether the component descriptor
  and the descriptor list are nil and whether the value context has the key
  \<open>blueprint\<close>; its export method returns the \<^verbatim>\<open>exports\<close> value under the key
  \<open>exports\<close>. With it, a blueprint with one executor of that type in each list, and
  options for that blueprint with an installation, a component descriptor and a
  descriptor list.
\<close>

definition probeItems ::
  "unit option \<Rightarrow> unit option \<Rightarrow> (string \<Rightarrow> string iface option) \<Rightarrow> string list" where
  "probeItems c l v =
     [if c = None then ''cd nil'' else ''cd set'',
      if l = None then ''list nil'' else ''list set'',
      if v ''blueprint'' = None then ''no blueprint'' else ''blueprint'']"

definition probeBackend :: "(string, unit, unit, string, string) ExecutionTemplater" where
  "probeBackend =
     \<lparr>impl_Type = ''Probe'',
      impl_TemplateSubinstallationExecutions = (\<lambda>e b c l v.
         Inr \<lparr>Subinstallations = Some (probeItems c l v)\<rparr>),
      impl_TemplateDeployExecutions = (\<lambda>e b c l v.
         Inr \<lparr>DeployItems = Some (probeItems c l v)\<rparr>),
      impl_TemplateExportExecutions = (\<lambda>e b x. Inr \<lparr>Exports = [''exports'' \<mapsto> x]\<rparr>)\<rparr>"

definition probeTemplater :: "(string, unit, unit, string, string) Templater" where
  "probeTemplater = New [probeBackend]"

definition probeBlueprint :: Blueprint where
  "probeBlueprint =
     \<lparr>Info = \<lparr>SubinstallationExecutions = [executor ''p'' ''Probe'' []],
               DeployExecutions = [executor ''p'' ''Probe'' []],
               ExportExecutions = [executor ''p'' ''Probe'' []]\<rparr>\<rparr>"

definition probeOptions :: "(string, unit, unit, unit, unit) DeployExecutionOptions" where
  "probeOptions =
     \<lparr>Imports = Map.empty,
      Installation = Some \<lparr>Spec = \<lparr>Spec_Blueprint = (), Spec_ComponentDescriptor = None\<rparr>\<rparr>,
      Blueprint = probeBlueprint, ComponentDescriptor = Some (),
      ComponentDescriptors = Some ()\<rparr>"

text \<open>A validation whose conversion of the list fails.\<close>

definition unconvertibleValidation :: "(string, string) Validation" where
  "unconvertibleValidation =
     \<lparr>Convert_DeployItemTemplateList = (\<lambda>list. Inl (External ''conversion'')),
      ValidateDeployItemTemplateList = ValidateDeployItemTemplateList sampleValidation\<rparr>"

subsection \<open>A sample execution\<close>

text \<open>
  An execution with two conditions in an empty store. The sample helpers encode a plain
  value and fail on a map; \<open>reliableWriter\<close> never fails, \<open>failingWriter\<close> fails on every
  write.
\<close>

definition condition :: "string \<Rightarrow> string \<Rightarrow> Condition" where
  "condition t status =
     \<lparr>cond_Type = t, cond_Status = status, cond_Reason = [], cond_Timestamp = 0\<rparr>"

definition sampleExecution :: Execution where
  "sampleExecution =
     \<lparr>exec_Name = ''exec'', exec_Namespace = ''default'',
      Status = \<lparr>Phase = ''Init'',
                Conditions = [condition ''Reconcile'' ''False'', condition ''Ready'' ''False''],
                ExportReference = None\<rparr>\<rparr>"

definition sampleHelpers :: "string Helpers" where
  "sampleHelpers =
     \<lparr>SourceOf = (\<lambda>namespace name. ''executions/'' @ namespace @ ''/'' @ name),
      GenerateName = (\<lambda>ctx. ''do-'' @ ctx),
      Marshal = (\<lambda>v. case v of
                        Nil \<Rightarrow> Inr ''null''
                      | Generic x \<Rightarrow> Inr x
                      | StringMap m \<Rightarrow> Inl (External ''unsupported value'')),
      OwnerReferenceFault = (\<lambda>owner raw. None)\<rparr>"

definition emptyStore :: Store where
  "emptyStore = \<lparr>dataObjects = Map.empty, executions = Map.empty\<rparr>"

definition reliableWriter :: "Store Writer" where
  "reliableWriter = storeWriter (\<lambda>exec. None) (\<lambda>raw. None)"

definition failingWriter :: "Store Writer" where
  "failingWriter =
     storeWriter (\<lambda>exec. Some (External ''conflict'')) (\<lambda>raw. Some (External ''conflict''))"

text \<open>
  The sample execution and the store once the export value \<open>3\<close> has been published
  through the reliable writer.
\<close>

definition publishedExecution :: Execution where
  "publishedExecution =
     sampleExecution\<lparr>Status := (Status sampleExecution)\<lparr>ExportReference :=
       Some \<lparr>ref_Name = ''do-executions/default/exec'', ref_Namespace = ''default''\<rparr>\<rparr>\<rparr>"

definition publishedStore :: Store where
  "publishedStore =
     \<lparr>dataObjects = [(''default'', ''do-executions/default/exec'') \<mapsto>
        \<lparr>do_Source = ''executions/default/exec'', do_Context = ''executions/default/exec'',
         do_Owner = Some (''default'', ''exec''), do_Data = ''3''\<rparr>],
      executions = [(''default'', ''exec'') \<mapsto> Status publishedExecution]\<rparr>"

text \<open>The sample execution after a status update to \<open>Progressing\<close> with two conditions.\<close>

definition progressingExecution :: Execution where
  "progressingExecution =
     sampleExecution\<lparr>Status := \<lparr>Phase = ''Progressing'',
       Conditions = [condition ''Reconcile'' ''False'', condition ''Ready'' ''True'',
                     condition ''Exported'' ''True''],
       ExportReference = None\<rparr>\<rparr>"

text \<open>
  The data object that is built for the export value \<open>3\<close> of the sample execution, and
  the object once the owner reference is set and the builder is applied.
\<close>

definition builtObject :: DataObject where
  "builtObject =
     \<lparr>do_Name = ''do-executions/default/exec'', do_Namespace = ''default'',
      do_Body = \<lparr>do_Source = ''executions/default/exec'',
                 do_Context = ''executions/default/exec'',
                 do_Owner = None, do_Data = ''3''\<rparr>\<rparr>"

definition appliedObject :: DataObject where
  "appliedObject =
     \<lparr>do_Name = ''do-executions/default/exec'', do_Namespace = ''default'',
      do_Body = \<lparr>do_Source = ''executions/default/exec'',
                 do_Context = ''executions/default/exec'',
                 do_Owner = Some (''default'', ''exec''), do_Data = ''3''\<rparr>\<rparr>"

section \<open>Properties of the pipelines\<close>

subsection \<open>Facts about the sample\<close>

lemma sample_impl: "impl sampleTemplater = [''GoTemplate'' \<mapsto> sampleBackend]"
  by (simp add: sampleTemplater_def New_def sampleBackend_def)

lemma sample_templateValues:
  "templateValues sampleSerializer (sampleOptions blueprint) = Inr sampleValues"
  by (simp add: templateValues_def sampleOptions_def sampleValues_def
      serializeComponentDescriptor_def serializeComponentDescriptorList_def)

subsection \<open>An executor of an unregistered type\<close>

lemma subinstallationLoop_unknown:
  "\<exists>e\<in>set execs. impl T (Type e) = None \<Longrightarrow>
   \<exists>err. snd (subinstallationLoop T opts vals execs acc calls) = Inl err"
proof (induction execs arbitrary: acc calls)
  case Nil
  then show ?case by simp
next
  case (Cons e execs)
  show ?case
  proof (cases "impl T (Type e)")
    case None
    then show ?thesis by simp
  next
    case (Some b)
    with Cons.prems have rest: "\<exists>e\<in>set execs. impl T (Type e) = None" by auto
    show ?thesis
      using Some Cons.IH [OF rest]
      by (simp add: Let_def split: sum.splits option.splits)
  qed
qed

lemma deployLoop_unknown:
  "\<exists>e\<in>set execs. impl T (Type e) = None \<Longrightarrow>
   \<exists>err. snd (deployLoop T opts vals execs acc calls) = Inl err"
proof (induction execs arbitrary: acc calls)
  case Nil
  then show ?case by simp
next
  case (Cons e execs)
  show ?case
  proof (cases "impl T (Type e)")
    case None
    then show ?thesis by simp
  next
    case (Some b)
    with Cons.prems have rest: "\<exists>e\<in>set execs. impl T (Type e) = None" by auto
    show ?thesis
      using Some Cons.IH [OF rest]
      by (simp add: Let_def split: sum.splits option.splits)
  qed
qed

lemma exportLoop_unknown:
  "\<exists>e\<in>set execs. impl T (Type e) = None \<Longrightarrow>
   \<exists>err. snd (exportLoop T bp exports execs acc calls) = Inl err"
proof (induction execs arbitrary: acc calls)
  case Nil
  then show ?case by simp
next
  case (Cons e execs)
  show ?case
  proof (cases "impl T (Type e)")
    case None
    then show ?thesis by simp
  next
    case (Some b)
    with Cons.prems have rest: "\<exists>e\<in>set execs. impl T (Type e) = None" by auto
    show ?thesis
      using Some Cons.IH [OF rest]
      by (simp add: Let_def split: sum.splits option.splits)
  qed
qed

lemma subinstallation_unknown:
  assumes "\<exists>e\<in>set (SubinstallationExecutions (Info (Blueprint opts))). impl T (Type e) = None"
  shows "\<exists>err. TemplateSubinstallationExecutions ser T opts = Inl err"
proof (cases "templateValues ser opts")
  case (Inl err)
  then show ?thesis
    by (simp add: TemplateSubinstallationExecutions_def TemplateSubinstallationExecutions_run_def)
next
  case (Inr vals)
  then show ?thesis
    using subinstallationLoop_unknown [OF assms]
    by (simp add: TemplateSubinstallationExecutions_def TemplateSubinstallationExecutions_run_def)
qed

lemma deploy_unknown:
  assumes "\<exists>e\<in>set (DeployExecutions (Info (Blueprint opts))). impl T (Type e) = None"
  shows "\<exists>err. TemplateDeployExecutions ser val T opts = Inl err"
proof (cases "templateValues ser opts")
  case (Inl err)
  then show ?thesis
    by (simp add: TemplateDeployExecutions_def TemplateDeployExecutions_run_def)
next
  case (Inr vals)
  obtain calls err where
    "deployLoop T opts vals (DeployExecutions (Info (Blueprint opts))) [] [] = (calls, Inl err)"
    using deployLoop_unknown [OF assms, of opts vals "[]" "[]"]
    by (metis prod.collapse)
  with Inr show ?thesis
    by (simp add: TemplateDeployExecutions_def TemplateDeployExecutions_run_def)
qed

lemma export_unknown:
  assumes "\<exists>e\<in>set (ExportExecutions (Info bp)). impl T (Type e) = None"
  shows "\<exists>err. TemplateExportExecutions T bp exports = Inl err"
  using exportLoop_unknown [OF assms]
  by (simp add: TemplateExportExecutions_def TemplateExportExecutions_run_def)

text \<open>
  C1. In each of the three pipelines, if some executor of the pipeline's list has a type
  with no backend registered in the templater, the operation returns an error and no
  output: its result is \<open>Inl err\<close>, the \<^verbatim>\<open>return nil, err\<close> of the source, whatever the
  executors before it have produced.
\<close>

theorem unknown_type_aborts_pipeline:
  "((\<exists>e\<in>set (SubinstallationExecutions (Info (Blueprint opts))). impl T (Type e) = None) \<longrightarrow>
      (\<exists>err. TemplateSubinstallationExecutions ser T opts = Inl err)) \<and>
   ((\<exists>e\<in>set (DeployExecutions (Info (Blueprint opts))). impl T (Type e) = None) \<longrightarrow>
      (\<exists>err. TemplateDeployExecutions ser val T opts = Inl err)) \<and>
   ((\<exists>e\<in>set (ExportExecutions (Info bp)). impl T (Type e) = None) \<longrightarrow>
      (\<exists>err. TemplateExportExecutions T bp exports = Inl err))"
  using subinstallation_unknown deploy_unknown export_unknown by blast

theorem unknown_type_aborts_pipeline_witness:
  "(\<exists>e\<in>set (SubinstallationExecutions (Info (Blueprint (sampleOptions unregisteredBlueprint)))).
      impl sampleTemplater (Type e) = None) \<and>
   (\<exists>err. TemplateSubinstallationExecutions sampleSerializer sampleTemplater
      (sampleOptions unregisteredBlueprint) = Inl err) \<and>
   (\<exists>e\<in>set (DeployExecutions (Info (Blueprint (sampleOptions unregisteredBlueprint)))).
      impl sampleTemplater (Type e) = None) \<and>
   (\<exists>err. TemplateDeployExecutions sampleSerializer sampleValidation sampleTemplater
      (sampleOptions unregisteredBlueprint) = Inl err) \<and>
   (\<exists>e\<in>set (ExportExecutions (Info unregisteredBlueprint)).
      impl sampleTemplater (Type e) = None) \<and>
   (\<exists>err. TemplateExportExecutions sampleTemplater unregisteredBlueprint Nil = Inl err)"
proof -
  have s: "\<exists>e\<in>set (SubinstallationExecutions (Info (Blueprint (sampleOptions unregisteredBlueprint)))).
      impl sampleTemplater (Type e) = None"
    by (simp add: sample_impl sampleOptions_def unregisteredBlueprint_def executor_def)
  have d: "\<exists>e\<in>set (DeployExecutions (Info (Blueprint (sampleOptions unregisteredBlueprint)))).
      impl sampleTemplater (Type e) = None"
    by (simp add: sample_impl sampleOptions_def unregisteredBlueprint_def executor_def)
  have x: "\<exists>e\<in>set (ExportExecutions (Info unregisteredBlueprint)).
      impl sampleTemplater (Type e) = None"
    by (simp add: sample_impl unregisteredBlueprint_def executor_def)
  show ?thesis
    using s d x
      unknown_type_aborts_pipeline [of "sampleOptions unregisteredBlueprint" sampleTemplater
        sampleSerializer sampleValidation unregisteredBlueprint Nil]
    by blast
qed

subsection \<open>Pipelines whose executors all succeed\<close>

lemma subinstallationLoop_success:
  "list_all (subinstallationSucceeds T opts vals) execs \<Longrightarrow>
   subinstallationLoop T opts vals execs acc calls =
     (calls @ map (\<lambda>e. SubinstallationCall e (Blueprint opts) (ComponentDescriptor opts)
                (ComponentDescriptors opts) vals) execs,
      Inr (acc @ concat (map (executorSubinstallations T opts vals) execs)))"
proof (induction execs arbitrary: acc calls)
  case Nil
  then show ?case by simp
next
  case (Cons e execs)
  from Cons.prems have rest: "list_all (subinstallationSucceeds T opts vals) execs"
    and this_one: "subinstallationSucceeds T opts vals e" by simp_all
  from this_one show ?case
    by (auto simp add: Cons.IH [OF rest] subinstallationSucceeds_def executorSubinstallations_def
        Let_def split: option.splits sum.splits)
qed

lemma deployLoop_success:
  "list_all (deploySucceeds T opts vals) execs \<Longrightarrow>
   deployLoop T opts vals execs acc calls =
     (calls @ map (\<lambda>e. DeployCall e (Blueprint opts) (ComponentDescriptor opts)
                (ComponentDescriptors opts) vals) execs,
      Inr (acc @ concat (map (executorDeployItems T opts vals) execs)))"
proof (induction execs arbitrary: acc calls)
  case Nil
  then show ?case by simp
next
  case (Cons e execs)
  from Cons.prems have rest: "list_all (deploySucceeds T opts vals) execs"
    and this_one: "deploySucceeds T opts vals e" by simp_all
  from this_one show ?case
    by (auto simp add: Cons.IH [OF rest] deploySucceeds_def executorDeployItems_def
        Let_def split: option.splits sum.splits)
qed


subsection \<open>The backend calls of a pipeline\<close>

lemma subinstallationLoop_calls:
  "\<exists>n\<le>length execs. fst (subinstallationLoop T opts vals execs acc calls) =
     calls @ map (\<lambda>e. SubinstallationCall e (Blueprint opts) (ComponentDescriptor opts)
                (ComponentDescriptors opts) vals) (take n execs)"
proof (induction execs arbitrary: acc calls)
  case Nil
  then show ?case by simp
next
  case (Cons e execs)
  let ?c = "\<lambda>e. SubinstallationCall e (Blueprint opts) (ComponentDescriptor opts)
                (ComponentDescriptors opts) vals"
  show ?case
  proof (cases "impl T (Type e)")
    case None
    then have "fst (subinstallationLoop T opts vals (e # execs) acc calls) =
      calls @ map ?c (take 0 (e # execs))" by simp
    then show ?thesis by blast
  next
    case (Some b)
    show ?thesis
    proof (cases "impl_TemplateSubinstallationExecutions b e (Blueprint opts)
        (ComponentDescriptor opts) (ComponentDescriptors opts) vals")
      case (Inl err)
      with Some have "fst (subinstallationLoop T opts vals (e # execs) acc calls) =
        calls @ map ?c (take 1 (e # execs))" by simp
      moreover have "1 \<le> length (e # execs)" by simp
      ultimately show ?thesis by blast
    next
      case (Inr out)
      obtain acc' where step: "subinstallationLoop T opts vals (e # execs) acc calls =
        subinstallationLoop T opts vals execs acc' (calls @ [?c e])"
        using Some Inr by (cases "Subinstallations out") simp_all
      from Cons.IH [of acc' "calls @ [?c e]"] obtain n where
        n: "n \<le> length execs" and
        eq: "fst (subinstallationLoop T opts vals execs acc' (calls @ [?c e])) =
          (calls @ [?c e]) @ map ?c (take n execs)" by blast
      have "fst (subinstallationLoop T opts vals (e # execs) acc calls) =
        calls @ map ?c (take (Suc n) (e # execs))"
        using step eq by simp
      moreover have "Suc n \<le> length (e # execs)" using n by simp
      ultimately show ?thesis by blast
    qed
  qed
qed

lemma deployLoop_calls:
  "\<exists>n\<le>length execs. fst (deployLoop T opts vals execs acc calls) =
     calls @ map (\<lambda>e. DeployCall e (Blueprint opts) (ComponentDescriptor opts)
                (ComponentDescriptors opts) vals) (take n execs)"
proof (induction execs arbitrary: acc calls)
  case Nil
  then show ?case by simp
next
  case (Cons e execs)
  let ?c = "\<lambda>e. DeployCall e (Blueprint opts) (ComponentDescriptor opts)
                (ComponentDescriptors opts) vals"
  show ?case
  proof (cases "impl T (Type e)")
    case None
    then have "fst (deployLoop T opts vals (e # execs) acc calls) =
      calls @ map ?c (take 0 (e # execs))" by simp
    then show ?thesis by blast
  next
    case (Some b)
    show ?thesis
    proof (cases "impl_TemplateDeployExecutions b e (Blueprint opts)
        (ComponentDescriptor opts) (ComponentDescriptors opts) vals")
      case (Inl err)
      with Some have "fst (deployLoop T opts vals (e # execs) acc calls) =
        calls @ map ?c (take 1 (e # execs))" by simp
      moreover have "1 \<le> length (e # execs)" by simp
      ultimately show ?thesis by blast
    next
      case (Inr out)
      obtain acc' where step: "deployLoop T opts vals (e # execs) acc calls =
        deployLoop T opts vals execs acc' (calls @ [?c e])"
        using Some Inr by (cases "DeployItems out") simp_all
      from Cons.IH [of acc' "calls @ [?c e]"] obtain n where
        n: "n \<le> length execs" and
        eq: "fst (deployLoop T opts vals execs acc' (calls @ [?c e])) =
          (calls @ [?c e]) @ map ?c (take n execs)" by blast
      have "fst (deployLoop T opts vals (e # execs) acc calls) =
        calls @ map ?c (take (Suc n) (e # execs))"
        using step eq by simp
      moreover have "Suc n \<le> length (e # execs)" using n by simp
      ultimately show ?thesis by blast
    qed
  qed
qed

lemma deploy_run_calls:
  "templateValues ser opts = Inr vals \<Longrightarrow>
   fst (TemplateDeployExecutions_run ser val T opts) =
     fst (deployLoop T opts vals (DeployExecutions (Info (Blueprint opts))) [] [])"
  by (simp add: TemplateDeployExecutions_run_def split: prod.splits sum.splits option.splits)

subsection \<open>The merge of the exports\<close>

lemma MergeMaps_empty: "MergeMaps Map.empty b = b"
  by (rule ext) (simp add: MergeMaps_def split: option.splits)

text \<open>
  C2. For a blueprint whose export executors are \<open>E1\<close> then \<open>E2\<close>, both registered and
  both succeeding, \<^verbatim>\<open>TemplateExportExecutions\<close> returns a map whose keys are those of the
  two export maps: a key of both has the value of \<open>E2\<close>, a key of one only has the value
  of that one.
\<close>

theorem export_merge_right_biased:
  assumes "ExportExecutions (Info bp) = [E1, E2]"
    and "impl T (Type E1) = Some b1"
    and "impl_TemplateExportExecutions b1 E1 bp exports = Inr out1"
    and "impl T (Type E2) = Some b2"
    and "impl_TemplateExportExecutions b2 E2 bp exports = Inr out2"
  shows "\<exists>m. TemplateExportExecutions T bp exports = Inr m \<and>
           dom m = dom (Exports out1) \<union> dom (Exports out2) \<and>
           (\<forall>key \<in> dom (Exports out1) \<inter> dom (Exports out2). m key = Exports out2 key) \<and>
           (\<forall>key \<in> dom (Exports out2) - dom (Exports out1). m key = Exports out2 key) \<and>
           (\<forall>key \<in> dom (Exports out1) - dom (Exports out2). m key = Exports out1 key)"
proof -
  let ?m = "MergeMaps (Exports out1) (Exports out2)"
  have "TemplateExportExecutions T bp exports = Inr ?m"
    using assms
    by (simp add: TemplateExportExecutions_def TemplateExportExecutions_run_def MergeMaps_empty)
  moreover have "dom ?m = dom (Exports out1) \<union> dom (Exports out2)"
    by (auto simp add: MergeMaps_def dom_def split: option.splits)
  moreover have "\<forall>key \<in> dom (Exports out2). ?m key = Exports out2 key"
    by (auto simp add: MergeMaps_def)
  moreover have "\<forall>key \<in> dom (Exports out1) - dom (Exports out2). ?m key = Exports out1 key"
    by (auto simp add: MergeMaps_def dom_def)
  ultimately show ?thesis by auto
qed

text \<open>
  C2 on the sample blueprint: \<open>replicas\<close> is exported by both executors and ends as
  \<open>5\<close>, the value of the second; \<open>name\<close> is exported by the second only.
\<close>

theorem export_merge_right_biased_witness:
  "ExportExecutions (Info sampleBlueprint) =
     [executor ''first'' ''GoTemplate'' [], executor ''second'' ''GoTemplate'' []] \<and>
   impl sampleTemplater (Type (executor ''first'' ''GoTemplate'' [])) = Some sampleBackend \<and>
   impl_TemplateExportExecutions sampleBackend (executor ''first'' ''GoTemplate'' [])
     sampleBlueprint Nil = Inr \<lparr>Exports = [''replicas'' \<mapsto> Generic ''3'']\<rparr> \<and>
   impl sampleTemplater (Type (executor ''second'' ''GoTemplate'' [])) = Some sampleBackend \<and>
   impl_TemplateExportExecutions sampleBackend (executor ''second'' ''GoTemplate'' [])
     sampleBlueprint Nil =
       Inr \<lparr>Exports = [''replicas'' \<mapsto> Generic ''5'', ''name'' \<mapsto> Generic ''x'']\<rparr> \<and>
   (\<exists>m. TemplateExportExecutions sampleTemplater sampleBlueprint Nil = Inr m \<and>
        m ''replicas'' = Some (Generic ''5'') \<and> m ''name'' = Some (Generic ''x''))"
proof -
  let ?E1 = "executor ''first'' ''GoTemplate'' []"
  let ?E2 = "executor ''second'' ''GoTemplate'' []"
  let ?out1 = "\<lparr>Exports = [''replicas'' \<mapsto> Generic ''3'']\<rparr> :: string ExportExecutorOutput"
  let ?out2 = "\<lparr>Exports = [''replicas'' \<mapsto> Generic ''5'', ''name'' \<mapsto> Generic ''x'']\<rparr>
    :: string ExportExecutorOutput"
  have h1: "ExportExecutions (Info sampleBlueprint) = [?E1, ?E2]"
    by (simp add: sampleBlueprint_def)
  have h2: "impl sampleTemplater (Type ?E1) = Some sampleBackend"
    by (simp add: sample_impl executor_def)
  have h3: "impl_TemplateExportExecutions sampleBackend ?E1 sampleBlueprint Nil = Inr ?out1"
    by (simp add: sampleBackend_def executor_def)
  have h4: "impl sampleTemplater (Type ?E2) = Some sampleBackend"
    by (simp add: sample_impl executor_def)
  have h5: "impl_TemplateExportExecutions sampleBackend ?E2 sampleBlueprint Nil = Inr ?out2"
    by (simp add: sampleBackend_def executor_def)
  from export_merge_right_biased [OF h1 h2 h3 h4 h5] obtain m where
    m: "TemplateExportExecutions sampleTemplater sampleBlueprint Nil = Inr m"
    and both: "\<forall>key \<in> dom (Exports ?out1) \<inter> dom (Exports ?out2). m key = Exports ?out2 key"
    and right: "\<forall>key \<in> dom (Exports ?out2) - dom (Exports ?out1). m key = Exports ?out2 key"
    by blast
  have "m ''replicas'' = Some (Generic ''5'')"
    using both by simp
  moreover have "m ''name'' = Some (Generic ''x'')"
    using right by simp
  ultimately show ?thesis
    using h1 h2 h3 h4 h5 m by blast
qed

subsection \<open>The arguments of the backend methods\<close>

lemma subinstallationLoop_ext:
  "list_all (\<lambda>e. rel_option (\<lambda>b1 b2.
       impl_TemplateSubinstallationExecutions b1 e (Blueprint opts) (ComponentDescriptor opts)
         (ComponentDescriptors opts) vals =
       impl_TemplateSubinstallationExecutions b2 e (Blueprint opts) (ComponentDescriptor opts)
         (ComponentDescriptors opts) vals) (impl T1 (Type e)) (impl T2 (Type e))) execs \<Longrightarrow>
   subinstallationLoop T1 opts vals execs acc calls =
   subinstallationLoop T2 opts vals execs acc calls"
proof (induction execs arbitrary: acc calls)
  case Nil
  then show ?case by simp
next
  case (Cons e execs)
  from Cons.prems have rest: "list_all (\<lambda>e. rel_option (\<lambda>b1 b2.
       impl_TemplateSubinstallationExecutions b1 e (Blueprint opts) (ComponentDescriptor opts)
         (ComponentDescriptors opts) vals =
       impl_TemplateSubinstallationExecutions b2 e (Blueprint opts) (ComponentDescriptor opts)
         (ComponentDescriptors opts) vals) (impl T1 (Type e)) (impl T2 (Type e))) execs"
    and head: "rel_option (\<lambda>b1 b2.
       impl_TemplateSubinstallationExecutions b1 e (Blueprint opts) (ComponentDescriptor opts)
         (ComponentDescriptors opts) vals =
       impl_TemplateSubinstallationExecutions b2 e (Blueprint opts) (ComponentDescriptor opts)
         (ComponentDescriptors opts) vals) (impl T1 (Type e)) (impl T2 (Type e))"
    by simp_all
  from head show ?case
  proof (cases rule: option.rel_cases)
    case None
    then show ?thesis by simp
  next
    case (Some b1 b2)
    then show ?thesis
      by (simp add: Cons.IH [OF rest] Let_def split: sum.splits option.splits)
  qed
qed

lemma deployLoop_ext:
  "list_all (\<lambda>e. rel_option (\<lambda>b1 b2.
       impl_TemplateDeployExecutions b1 e (Blueprint opts) (ComponentDescriptor opts)
         (ComponentDescriptors opts) vals =
       impl_TemplateDeployExecutions b2 e (Blueprint opts) (ComponentDescriptor opts)
         (ComponentDescriptors opts) vals) (impl T1 (Type e)) (impl T2 (Type e))) execs \<Longrightarrow>
   deployLoop T1 opts vals execs acc calls = deployLoop T2 opts vals execs acc calls"
proof (induction execs arbitrary: acc calls)
  case Nil
  then show ?case by simp
next
  case (Cons e execs)
  from Cons.prems have rest: "list_all (\<lambda>e. rel_option (\<lambda>b1 b2.
       impl_TemplateDeployExecutions b1 e (Blueprint opts) (ComponentDescriptor opts)
         (ComponentDescriptors opts) vals =
       impl_TemplateDeployExecutions b2 e (Blueprint opts) (ComponentDescriptor opts)
         (ComponentDescriptors opts) vals) (impl T1 (Type e)) (impl T2 (Type e))) execs"
    and head: "rel_option (\<lambda>b1 b2.
       impl_TemplateDeployExecutions b1 e (Blueprint opts) (ComponentDescriptor opts)
         (ComponentDescriptors opts) vals =
       impl_TemplateDeployExecutions b2 e (Blueprint opts) (ComponentDescriptor opts)
         (ComponentDescriptors opts) vals) (impl T1 (Type e)) (impl T2 (Type e))"
    by simp_all
  from head show ?case
  proof (cases rule: option.rel_cases)
    case None
    then show ?thesis by simp
  next
    case (Some b1 b2)
    then show ?thesis
      by (simp add: Cons.IH [OF rest] Let_def split: sum.splits option.splits)
  qed
qed

lemma exportLoop_ext:
  "list_all (\<lambda>e. rel_option (\<lambda>b1 b2.
       impl_TemplateExportExecutions b1 e bp exports =
       impl_TemplateExportExecutions b2 e bp exports) (impl T1 (Type e)) (impl T2 (Type e)))
     execs \<Longrightarrow>
   exportLoop (T1 :: ('v, 'cd, 'cdl, 'i, 'd) Templater) bp exports execs acc calls =
   exportLoop (T2 :: ('v, 'cd, 'cdl, 'i, 'd) Templater) bp exports execs acc calls"
proof (induction execs arbitrary: acc calls)
  case Nil
  then show ?case by simp
next
  case (Cons e execs)
  from Cons.prems have rest: "list_all (\<lambda>e. rel_option (\<lambda>b1 b2.
       impl_TemplateExportExecutions b1 e bp exports =
       impl_TemplateExportExecutions b2 e bp exports) (impl T1 (Type e)) (impl T2 (Type e)))
     execs"
    and head: "rel_option (\<lambda>b1 b2.
       impl_TemplateExportExecutions b1 e bp exports =
       impl_TemplateExportExecutions b2 e bp exports) (impl T1 (Type e)) (impl T2 (Type e))"
    by simp_all
  from head show ?case
  proof (cases rule: option.rel_cases)
    case None
    then show ?thesis by simp
  next
    case (Some b1 b2)
    then show ?thesis
      by (simp add: Cons.IH [OF rest] Let_def split: sum.splits)
  qed
qed

lemma subinstallationLoop_prefix:
  "list_all (subinstallationSucceeds T opts vals) pre \<Longrightarrow>
   \<exists>acc' calls'. subinstallationLoop T opts vals (pre @ rest) acc calls =
     subinstallationLoop T opts vals rest acc' calls'"
proof (induction pre arbitrary: acc calls)
  case Nil
  then show ?case by auto
next
  case (Cons e pre)
  from Cons.prems have rest: "list_all (subinstallationSucceeds T opts vals) pre"
    and this_one: "subinstallationSucceeds T opts vals e" by simp_all
  from this_one show ?case
    using Cons.IH [OF rest]
    by (auto simp add: subinstallationSucceeds_def Let_def split: option.splits sum.splits)
qed

lemma deployLoop_prefix:
  "list_all (deploySucceeds T opts vals) pre \<Longrightarrow>
   \<exists>acc' calls'. deployLoop T opts vals (pre @ rest) acc calls =
     deployLoop T opts vals rest acc' calls'"
proof (induction pre arbitrary: acc calls)
  case Nil
  then show ?case by auto
next
  case (Cons e pre)
  from Cons.prems have rest: "list_all (deploySucceeds T opts vals) pre"
    and this_one: "deploySucceeds T opts vals e" by simp_all
  from this_one show ?case
    using Cons.IH [OF rest]
    by (auto simp add: deploySucceeds_def Let_def split: option.splits sum.splits)
qed

lemma exportLoop_prefix:
  "list_all (exportSucceeds T bp exports) pre \<Longrightarrow>
   \<exists>acc' calls'. exportLoop T bp exports (pre @ rest) acc calls =
     exportLoop T bp exports rest acc' calls'"
proof (induction pre arbitrary: acc calls)
  case Nil
  then show ?case by auto
next
  case (Cons e pre)
  from Cons.prems have rest: "list_all (exportSucceeds T bp exports) pre"
    and this_one: "exportSucceeds T bp exports e" by simp_all
  from this_one show ?case
    using Cons.IH [OF rest]
    by (auto simp add: exportSucceeds_def Let_def split: option.splits sum.splits)
qed

lemma subinstallation_ext:
  assumes "list_all (\<lambda>e. rel_option (\<lambda>b1 b2.
       impl_TemplateSubinstallationExecutions b1 e (Blueprint opts) (ComponentDescriptor opts)
         (ComponentDescriptors opts) vals =
       impl_TemplateSubinstallationExecutions b2 e (Blueprint opts) (ComponentDescriptor opts)
         (ComponentDescriptors opts) vals) (impl T1 (Type e)) (impl T2 (Type e)))
     (SubinstallationExecutions (Info (Blueprint opts)))"
    and "templateValues ser opts = Inr vals"
  shows "TemplateSubinstallationExecutions ser T1 opts =
    TemplateSubinstallationExecutions ser T2 opts"
  using assms(2) subinstallationLoop_ext [OF assms(1)]
  by (simp add: TemplateSubinstallationExecutions_def TemplateSubinstallationExecutions_run_def)

lemma deploy_ext:
  assumes "list_all (\<lambda>e. rel_option (\<lambda>b1 b2.
       impl_TemplateDeployExecutions b1 e (Blueprint opts) (ComponentDescriptor opts)
         (ComponentDescriptors opts) vals =
       impl_TemplateDeployExecutions b2 e (Blueprint opts) (ComponentDescriptor opts)
         (ComponentDescriptors opts) vals) (impl T1 (Type e)) (impl T2 (Type e)))
     (DeployExecutions (Info (Blueprint opts)))"
    and "templateValues ser opts = Inr vals"
  shows "TemplateDeployExecutions ser val T1 opts = TemplateDeployExecutions ser val T2 opts"
  using assms(2) deployLoop_ext [OF assms(1)]
  by (simp add: TemplateDeployExecutions_def TemplateDeployExecutions_run_def)

lemma export_ext:
  assumes "list_all (\<lambda>e. rel_option (\<lambda>b1 b2.
       impl_TemplateExportExecutions b1 e bp exports =
       impl_TemplateExportExecutions b2 e bp exports) (impl T1 (Type e)) (impl T2 (Type e)))
     (ExportExecutions (Info bp))"
  shows "TemplateExportExecutions (T1 :: ('v, 'cd, 'cdl, 'i, 'd) Templater) bp exports =
    TemplateExportExecutions (T2 :: ('v, 'cd, 'cdl, 'i, 'd) Templater) bp exports"
  using exportLoop_ext [OF assms]
  by (simp add: TemplateExportExecutions_def TemplateExportExecutions_run_def)

lemma subinstallation_failure:
  assumes "templateValues ser opts = Inr vals"
    and "SubinstallationExecutions (Info (Blueprint opts)) = pre @ e # rest"
    and "list_all (subinstallationSucceeds T opts vals) pre"
    and "impl T (Type e) = Some b"
    and "impl_TemplateSubinstallationExecutions b e (Blueprint opts) (ComponentDescriptor opts)
           (ComponentDescriptors opts) vals = Inl err"
  shows "TemplateSubinstallationExecutions ser T opts = Inl err"
proof -
  obtain acc' calls' where "subinstallationLoop T opts vals (pre @ e # rest) [] [] =
      subinstallationLoop T opts vals (e # rest) acc' calls'"
    using subinstallationLoop_prefix [OF assms(3)] by blast
  then show ?thesis
    using assms(1,2,4,5)
    by (simp add: TemplateSubinstallationExecutions_def
        TemplateSubinstallationExecutions_run_def)
qed

lemma deploy_failure:
  assumes "templateValues ser opts = Inr vals"
    and "DeployExecutions (Info (Blueprint opts)) = pre @ e # rest"
    and "list_all (deploySucceeds T opts vals) pre"
    and "impl T (Type e) = Some b"
    and "impl_TemplateDeployExecutions b e (Blueprint opts) (ComponentDescriptor opts)
           (ComponentDescriptors opts) vals = Inl err"
  shows "TemplateDeployExecutions ser val T opts = Inl err"
proof -
  obtain acc' calls' where "deployLoop T opts vals (pre @ e # rest) [] [] =
      deployLoop T opts vals (e # rest) acc' calls'"
    using deployLoop_prefix [OF assms(3)] by blast
  then show ?thesis
    using assms(1,2,4,5)
    by (simp add: TemplateDeployExecutions_def TemplateDeployExecutions_run_def)
qed

lemma export_failure:
  assumes "ExportExecutions (Info bp) = pre @ e # rest"
    and "list_all (exportSucceeds T bp exports) pre"
    and "impl T (Type e) = Some b"
    and "impl_TemplateExportExecutions b e bp exports = Inl err"
  shows "TemplateExportExecutions T bp exports = Inl err"
proof -
  obtain acc' calls' where "exportLoop T bp exports (pre @ e # rest) Map.empty [] =
      exportLoop T bp exports (e # rest) acc' calls'"
    using exportLoop_prefix [OF assms(2)] by blast
  then show ?thesis
    using assms(1,3,4)
    by (simp add: TemplateExportExecutions_def TemplateExportExecutions_run_def)
qed

text \<open>
  C3, as amended. The result of the sub-installation pipeline, and of the deploy-item
  pipeline, depends on the registered backends only through what their method returns when
  applied to an executor of the list, the blueprint, the component descriptor, the
  descriptor list and the value context that the operation has built: two registries that
  agree there give the same result. The result of the export pipeline depends on them only
  through what the export method returns when applied to an executor, the blueprint and
  the \<^verbatim>\<open>exports\<close> value. The method is applied to these arguments: when the executors before
  an executor succeed and the method applied to these arguments fails for it, the pipeline
  returns that error.
\<close>

theorem dispatch_arguments:
  "(templateValues ser opts = Inr vals \<and>
    list_all (\<lambda>e. rel_option (\<lambda>b1 b2.
       impl_TemplateSubinstallationExecutions b1 e (Blueprint opts) (ComponentDescriptor opts)
         (ComponentDescriptors opts) vals =
       impl_TemplateSubinstallationExecutions b2 e (Blueprint opts) (ComponentDescriptor opts)
         (ComponentDescriptors opts) vals) (impl T1 (Type e)) (impl T2 (Type e)))
     (SubinstallationExecutions (Info (Blueprint opts))) \<longrightarrow>
    TemplateSubinstallationExecutions ser T1 opts =
    TemplateSubinstallationExecutions ser T2 opts) \<and>
   (templateValues ser opts = Inr vals \<and>
    list_all (\<lambda>e. rel_option (\<lambda>b1 b2.
       impl_TemplateDeployExecutions b1 e (Blueprint opts) (ComponentDescriptor opts)
         (ComponentDescriptors opts) vals =
       impl_TemplateDeployExecutions b2 e (Blueprint opts) (ComponentDescriptor opts)
         (ComponentDescriptors opts) vals) (impl T1 (Type e)) (impl T2 (Type e)))
     (DeployExecutions (Info (Blueprint opts))) \<longrightarrow>
    TemplateDeployExecutions ser val T1 opts = TemplateDeployExecutions ser val T2 opts) \<and>
   (list_all (\<lambda>e. rel_option (\<lambda>b1 b2.
       impl_TemplateExportExecutions b1 e bp exports =
       impl_TemplateExportExecutions b2 e bp exports) (impl T1 (Type e)) (impl T2 (Type e)))
     (ExportExecutions (Info bp)) \<longrightarrow>
    TemplateExportExecutions T1 bp exports = TemplateExportExecutions T2 bp exports) \<and>
   (templateValues ser opts = Inr vals \<and>
    SubinstallationExecutions (Info (Blueprint opts)) = pre @ e # rest \<and>
    list_all (subinstallationSucceeds T1 opts vals) pre \<and>
    impl T1 (Type e) = Some b \<and>
    impl_TemplateSubinstallationExecutions b e (Blueprint opts) (ComponentDescriptor opts)
      (ComponentDescriptors opts) vals = Inl err \<longrightarrow>
    TemplateSubinstallationExecutions ser T1 opts = Inl err) \<and>
   (templateValues ser opts = Inr vals \<and>
    DeployExecutions (Info (Blueprint opts)) = pre @ e # rest \<and>
    list_all (deploySucceeds T1 opts vals) pre \<and>
    impl T1 (Type e) = Some b \<and>
    impl_TemplateDeployExecutions b e (Blueprint opts) (ComponentDescriptor opts)
      (ComponentDescriptors opts) vals = Inl err \<longrightarrow>
    TemplateDeployExecutions ser val T1 opts = Inl err) \<and>
   (ExportExecutions (Info bp) = pre @ e # rest \<and>
    list_all (exportSucceeds T1 bp exports) pre \<and>
    impl T1 (Type e) = Some b \<and>
    impl_TemplateExportExecutions b e bp exports = Inl err \<longrightarrow>
    TemplateExportExecutions T1 bp exports = Inl err)"
proof (intro conjI impI)
  assume "templateValues ser opts = Inr vals \<and>
    list_all (\<lambda>e. rel_option (\<lambda>b1 b2.
       impl_TemplateSubinstallationExecutions b1 e (Blueprint opts) (ComponentDescriptor opts)
         (ComponentDescriptors opts) vals =
       impl_TemplateSubinstallationExecutions b2 e (Blueprint opts) (ComponentDescriptor opts)
         (ComponentDescriptors opts) vals) (impl T1 (Type e)) (impl T2 (Type e)))
     (SubinstallationExecutions (Info (Blueprint opts)))"
  then show "TemplateSubinstallationExecutions ser T1 opts =
    TemplateSubinstallationExecutions ser T2 opts"
    using subinstallation_ext by blast
next
  assume "templateValues ser opts = Inr vals \<and>
    list_all (\<lambda>e. rel_option (\<lambda>b1 b2.
       impl_TemplateDeployExecutions b1 e (Blueprint opts) (ComponentDescriptor opts)
         (ComponentDescriptors opts) vals =
       impl_TemplateDeployExecutions b2 e (Blueprint opts) (ComponentDescriptor opts)
         (ComponentDescriptors opts) vals) (impl T1 (Type e)) (impl T2 (Type e)))
     (DeployExecutions (Info (Blueprint opts)))"
  then show "TemplateDeployExecutions ser val T1 opts = TemplateDeployExecutions ser val T2 opts"
    using deploy_ext by blast
next
  assume "list_all (\<lambda>e. rel_option (\<lambda>b1 b2.
       impl_TemplateExportExecutions b1 e bp exports =
       impl_TemplateExportExecutions b2 e bp exports) (impl T1 (Type e)) (impl T2 (Type e)))
     (ExportExecutions (Info bp))"
  then show "TemplateExportExecutions T1 bp exports = TemplateExportExecutions T2 bp exports"
    by (rule export_ext)
next
  assume "templateValues ser opts = Inr vals \<and>
    SubinstallationExecutions (Info (Blueprint opts)) = pre @ e # rest \<and>
    list_all (subinstallationSucceeds T1 opts vals) pre \<and>
    impl T1 (Type e) = Some b \<and>
    impl_TemplateSubinstallationExecutions b e (Blueprint opts) (ComponentDescriptor opts)
      (ComponentDescriptors opts) vals = Inl err"
  then show "TemplateSubinstallationExecutions ser T1 opts = Inl err"
    using subinstallation_failure by blast
next
  assume "templateValues ser opts = Inr vals \<and>
    DeployExecutions (Info (Blueprint opts)) = pre @ e # rest \<and>
    list_all (deploySucceeds T1 opts vals) pre \<and>
    impl T1 (Type e) = Some b \<and>
    impl_TemplateDeployExecutions b e (Blueprint opts) (ComponentDescriptor opts)
      (ComponentDescriptors opts) vals = Inl err"
  then show "TemplateDeployExecutions ser val T1 opts = Inl err"
    using deploy_failure by blast
next
  assume "ExportExecutions (Info bp) = pre @ e # rest \<and>
    list_all (exportSucceeds T1 bp exports) pre \<and>
    impl T1 (Type e) = Some b \<and>
    impl_TemplateExportExecutions b e bp exports = Inl err"
  then show "TemplateExportExecutions T1 bp exports = Inl err"
    using export_failure by blast
qed

lemma broken_impl:
  "impl brokenTemplater ''GoTemplate'' = Some sampleBackend"
  "impl brokenTemplater ''Broken'' = Some brokenBackend"
  by (simp_all add: brokenTemplater_def New_def sampleBackend_def brokenBackend_def)

lemma probe_impl: "impl probeTemplater = [''Probe'' \<mapsto> probeBackend]"
  by (simp add: probeTemplater_def New_def probeBackend_def)

lemma probe_templateValues:
  "templateValues sampleSerializer probeOptions =
     Inr [''imports'' \<mapsto> StringMap Map.empty, ''cd'' \<mapsto> Generic ''cd'',
          ''components'' \<mapsto> Generic ''list'', ''blueprint'' \<mapsto> Generic ''blueprint'']"
  by (simp add: templateValues_def probeOptions_def sampleSerializer_def
      serializeComponentDescriptor_def serializeComponentDescriptorList_def)

lemma probe_plain:
  "TemplateSubinstallationExecutions sampleSerializer probeTemplater
     (sampleOptions probeBlueprint) = Inr [''cd nil'', ''list nil'', ''no blueprint'']"
  "TemplateDeployExecutions sampleSerializer sampleValidation probeTemplater
     (sampleOptions probeBlueprint) = Inr [''cd nil'', ''list nil'', ''no blueprint'']"
  unfolding TemplateSubinstallationExecutions_def TemplateSubinstallationExecutions_run_def
    TemplateDeployExecutions_def TemplateDeployExecutions_run_def sample_templateValues
  by (simp_all add: probe_impl sampleOptions_def probeBlueprint_def executor_def
      probeBackend_def probeItems_def sampleValues_def validateDeployItemList_def
      sampleValidation_def ToAggregate_def)

lemma probe_installed:
  "TemplateSubinstallationExecutions sampleSerializer probeTemplater probeOptions =
     Inr [''cd set'', ''list set'', ''blueprint'']"
  "TemplateDeployExecutions sampleSerializer sampleValidation probeTemplater probeOptions =
     Inr [''cd set'', ''list set'', ''blueprint'']"
  unfolding TemplateSubinstallationExecutions_def TemplateSubinstallationExecutions_run_def
    TemplateDeployExecutions_def TemplateDeployExecutions_run_def probe_templateValues
  by (simp_all add: probe_impl probeOptions_def probeBlueprint_def executor_def
      probeBackend_def probeItems_def validateDeployItemList_def
      sampleValidation_def ToAggregate_def)

lemma probe_export:
  "TemplateExportExecutions probeTemplater probeBlueprint Nil = Inr [''exports'' \<mapsto> Nil]"
proof -
  have execs: "ExportExecutions (Info probeBlueprint) = [executor ''p'' ''Probe'' []]"
    by (simp add: probeBlueprint_def)
  show ?thesis
    unfolding TemplateExportExecutions_def TemplateExportExecutions_run_def execs
    by (simp add: probe_impl executor_def probeBackend_def MergeMaps_empty)
qed

text \<open>
  C3, as stated, fails. The backend \<open>Probe\<close> returns what it is given. Between an
  invocation without installation and descriptors and one with them, what the
  sub-installation and the deploy-item pipeline return changes; what the export pipeline
  returns for the blueprint of either is the \<^verbatim>\<open>exports\<close> value alone: its backend is given
  neither the descriptors nor a value context.
\<close>

theorem export_dispatch_counterexample:
  "TemplateSubinstallationExecutions sampleSerializer probeTemplater
     (sampleOptions probeBlueprint) = Inr [''cd nil'', ''list nil'', ''no blueprint''] \<and>
   TemplateSubinstallationExecutions sampleSerializer probeTemplater probeOptions =
     Inr [''cd set'', ''list set'', ''blueprint''] \<and>
   TemplateDeployExecutions sampleSerializer sampleValidation probeTemplater
     (sampleOptions probeBlueprint) = Inr [''cd nil'', ''list nil'', ''no blueprint''] \<and>
   TemplateDeployExecutions sampleSerializer sampleValidation probeTemplater probeOptions =
     Inr [''cd set'', ''list set'', ''blueprint''] \<and>
   TemplateExportExecutions probeTemplater (Blueprint (sampleOptions probeBlueprint)) Nil =
     Inr [''exports'' \<mapsto> Nil] \<and>
   TemplateExportExecutions probeTemplater (Blueprint probeOptions) Nil =
     Inr [''exports'' \<mapsto> Nil]"
proof -
  have "Blueprint (sampleOptions probeBlueprint) = probeBlueprint"
    and "Blueprint probeOptions = probeBlueprint"
    by (simp_all add: sampleOptions_def probeOptions_def)
  then show ?thesis
    using probe_plain probe_installed probe_export by simp
qed

lemma sample_agree:
  "list_all (\<lambda>e. rel_option (\<lambda>b1 b2.
       impl_TemplateSubinstallationExecutions b1 e (Blueprint (sampleOptions sampleBlueprint))
         (ComponentDescriptor (sampleOptions sampleBlueprint))
         (ComponentDescriptors (sampleOptions sampleBlueprint)) sampleValues =
       impl_TemplateSubinstallationExecutions b2 e (Blueprint (sampleOptions sampleBlueprint))
         (ComponentDescriptor (sampleOptions sampleBlueprint))
         (ComponentDescriptors (sampleOptions sampleBlueprint)) sampleValues)
       (impl sampleTemplater (Type e)) (impl brokenTemplater (Type e)))
     (SubinstallationExecutions (Info (Blueprint (sampleOptions sampleBlueprint))))"
  "list_all (\<lambda>e. rel_option (\<lambda>b1 b2.
       impl_TemplateDeployExecutions b1 e (Blueprint (sampleOptions sampleBlueprint))
         (ComponentDescriptor (sampleOptions sampleBlueprint))
         (ComponentDescriptors (sampleOptions sampleBlueprint)) sampleValues =
       impl_TemplateDeployExecutions b2 e (Blueprint (sampleOptions sampleBlueprint))
         (ComponentDescriptor (sampleOptions sampleBlueprint))
         (ComponentDescriptors (sampleOptions sampleBlueprint)) sampleValues)
       (impl sampleTemplater (Type e)) (impl brokenTemplater (Type e)))
     (DeployExecutions (Info (Blueprint (sampleOptions sampleBlueprint))))"
  "list_all (\<lambda>e. rel_option (\<lambda>b1 b2.
       impl_TemplateExportExecutions b1 e sampleBlueprint Nil =
       impl_TemplateExportExecutions b2 e sampleBlueprint Nil)
       (impl sampleTemplater (Type e)) (impl brokenTemplater (Type e)))
     (ExportExecutions (Info sampleBlueprint))"
proof -
  have execs: "SubinstallationExecutions (Info sampleBlueprint) =
      [executor ''a'' ''GoTemplate'' [], executor ''none'' ''GoTemplate'' [],
       executor ''b'' ''GoTemplate'' []]"
    "DeployExecutions (Info sampleBlueprint) =
      [executor ''d'' ''GoTemplate'' ''a'', executor ''e'' ''GoTemplate'' ''b'']"
    "ExportExecutions (Info sampleBlueprint) =
      [executor ''first'' ''GoTemplate'' [], executor ''second'' ''GoTemplate'' []]"
    by (simp_all add: sampleBlueprint_def)
  have bp: "Blueprint (sampleOptions sampleBlueprint) = sampleBlueprint"
    by (simp add: sampleOptions_def)
  have types: "Type (executor n ''GoTemplate'' f) = ''GoTemplate''" for n f
    by (simp add: executor_def)
  have registered: "impl sampleTemplater ''GoTemplate'' = Some sampleBackend"
    by (simp add: sample_impl)
  show "list_all (\<lambda>e. rel_option (\<lambda>b1 b2.
       impl_TemplateSubinstallationExecutions b1 e (Blueprint (sampleOptions sampleBlueprint))
         (ComponentDescriptor (sampleOptions sampleBlueprint))
         (ComponentDescriptors (sampleOptions sampleBlueprint)) sampleValues =
       impl_TemplateSubinstallationExecutions b2 e (Blueprint (sampleOptions sampleBlueprint))
         (ComponentDescriptor (sampleOptions sampleBlueprint))
         (ComponentDescriptors (sampleOptions sampleBlueprint)) sampleValues)
       (impl sampleTemplater (Type e)) (impl brokenTemplater (Type e)))
     (SubinstallationExecutions (Info (Blueprint (sampleOptions sampleBlueprint))))"
    unfolding bp execs by (simp add: types registered broken_impl)
  show "list_all (\<lambda>e. rel_option (\<lambda>b1 b2.
       impl_TemplateDeployExecutions b1 e (Blueprint (sampleOptions sampleBlueprint))
         (ComponentDescriptor (sampleOptions sampleBlueprint))
         (ComponentDescriptors (sampleOptions sampleBlueprint)) sampleValues =
       impl_TemplateDeployExecutions b2 e (Blueprint (sampleOptions sampleBlueprint))
         (ComponentDescriptor (sampleOptions sampleBlueprint))
         (ComponentDescriptors (sampleOptions sampleBlueprint)) sampleValues)
       (impl sampleTemplater (Type e)) (impl brokenTemplater (Type e)))
     (DeployExecutions (Info (Blueprint (sampleOptions sampleBlueprint))))"
    unfolding bp execs by (simp add: types registered broken_impl)
  show "list_all (\<lambda>e. rel_option (\<lambda>b1 b2.
       impl_TemplateExportExecutions b1 e sampleBlueprint Nil =
       impl_TemplateExportExecutions b2 e sampleBlueprint Nil)
       (impl sampleTemplater (Type e)) (impl brokenTemplater (Type e)))
     (ExportExecutions (Info sampleBlueprint))"
    unfolding execs by (simp add: types registered broken_impl)
qed

lemma broken_lists:
  "SubinstallationExecutions (Info (Blueprint (sampleOptions brokenBlueprint))) =
     [executor ''a'' ''GoTemplate'' []] @ executor ''f'' ''Broken'' [] #
     [executor ''b'' ''GoTemplate'' []]"
  "DeployExecutions (Info (Blueprint (sampleOptions brokenBlueprint))) =
     [executor ''d'' ''GoTemplate'' ''a''] @ executor ''f'' ''Broken'' [] #
     [executor ''e'' ''GoTemplate'' ''b'']"
  "ExportExecutions (Info brokenBlueprint) =
     [executor ''first'' ''GoTemplate'' []] @ executor ''f'' ''Broken'' [] #
     [executor ''second'' ''GoTemplate'' []]"
  by (simp_all add: sampleOptions_def brokenBlueprint_def)

lemma broken_prefix:
  "list_all (subinstallationSucceeds brokenTemplater (sampleOptions brokenBlueprint) sampleValues)
     [executor ''a'' ''GoTemplate'' []]"
  "list_all (deploySucceeds brokenTemplater (sampleOptions brokenBlueprint) sampleValues)
     [executor ''d'' ''GoTemplate'' ''a'']"
  "list_all (exportSucceeds brokenTemplater brokenBlueprint Nil)
     [executor ''first'' ''GoTemplate'' []]"
  by (simp_all add: subinstallationSucceeds_def deploySucceeds_def exportSucceeds_def
      executor_def broken_impl sampleBackend_def)

lemma broken_fails:
  "impl brokenTemplater (Type (executor ''f'' ''Broken'' [])) = Some brokenBackend"
  "impl_TemplateSubinstallationExecutions brokenBackend (executor ''f'' ''Broken'' [])
     (Blueprint (sampleOptions brokenBlueprint))
     (ComponentDescriptor (sampleOptions brokenBlueprint))
     (ComponentDescriptors (sampleOptions brokenBlueprint)) sampleValues =
   Inl (External ''render'')"
  "impl_TemplateDeployExecutions brokenBackend (executor ''f'' ''Broken'' [])
     (Blueprint (sampleOptions brokenBlueprint))
     (ComponentDescriptor (sampleOptions brokenBlueprint))
     (ComponentDescriptors (sampleOptions brokenBlueprint)) sampleValues =
   Inl (External ''render'')"
  "impl_TemplateExportExecutions brokenBackend (executor ''f'' ''Broken'' []) brokenBlueprint Nil =
   Inl (External ''render'')"
  by (simp_all add: executor_def broken_impl brokenBackend_def)

text \<open>
  C3, as amended: two registries that agree on the executors of the sample blueprint, and
  a blueprint whose second executor of each list fails.
\<close>

theorem dispatch_arguments_witness:
  "templateValues sampleSerializer (sampleOptions sampleBlueprint) = Inr sampleValues \<and>
   list_all (\<lambda>e. rel_option (\<lambda>b1 b2.
       impl_TemplateSubinstallationExecutions b1 e (Blueprint (sampleOptions sampleBlueprint))
         (ComponentDescriptor (sampleOptions sampleBlueprint))
         (ComponentDescriptors (sampleOptions sampleBlueprint)) sampleValues =
       impl_TemplateSubinstallationExecutions b2 e (Blueprint (sampleOptions sampleBlueprint))
         (ComponentDescriptor (sampleOptions sampleBlueprint))
         (ComponentDescriptors (sampleOptions sampleBlueprint)) sampleValues)
       (impl sampleTemplater (Type e)) (impl brokenTemplater (Type e)))
     (SubinstallationExecutions (Info (Blueprint (sampleOptions sampleBlueprint)))) \<and>
   TemplateSubinstallationExecutions sampleSerializer sampleTemplater
     (sampleOptions sampleBlueprint) =
   TemplateSubinstallationExecutions sampleSerializer brokenTemplater
     (sampleOptions sampleBlueprint) \<and>
   list_all (\<lambda>e. rel_option (\<lambda>b1 b2.
       impl_TemplateDeployExecutions b1 e (Blueprint (sampleOptions sampleBlueprint))
         (ComponentDescriptor (sampleOptions sampleBlueprint))
         (ComponentDescriptors (sampleOptions sampleBlueprint)) sampleValues =
       impl_TemplateDeployExecutions b2 e (Blueprint (sampleOptions sampleBlueprint))
         (ComponentDescriptor (sampleOptions sampleBlueprint))
         (ComponentDescriptors (sampleOptions sampleBlueprint)) sampleValues)
       (impl sampleTemplater (Type e)) (impl brokenTemplater (Type e)))
     (DeployExecutions (Info (Blueprint (sampleOptions sampleBlueprint)))) \<and>
   TemplateDeployExecutions sampleSerializer sampleValidation sampleTemplater
     (sampleOptions sampleBlueprint) =
   TemplateDeployExecutions sampleSerializer sampleValidation brokenTemplater
     (sampleOptions sampleBlueprint) \<and>
   list_all (\<lambda>e. rel_option (\<lambda>b1 b2.
       impl_TemplateExportExecutions b1 e sampleBlueprint Nil =
       impl_TemplateExportExecutions b2 e sampleBlueprint Nil)
       (impl sampleTemplater (Type e)) (impl brokenTemplater (Type e)))
     (ExportExecutions (Info sampleBlueprint)) \<and>
   TemplateExportExecutions sampleTemplater sampleBlueprint Nil =
   TemplateExportExecutions brokenTemplater sampleBlueprint Nil \<and>
   templateValues sampleSerializer (sampleOptions brokenBlueprint) = Inr sampleValues \<and>
   SubinstallationExecutions (Info (Blueprint (sampleOptions brokenBlueprint))) =
     [executor ''a'' ''GoTemplate'' []] @ executor ''f'' ''Broken'' [] #
     [executor ''b'' ''GoTemplate'' []] \<and>
   list_all (subinstallationSucceeds brokenTemplater (sampleOptions brokenBlueprint) sampleValues)
     [executor ''a'' ''GoTemplate'' []] \<and>
   impl brokenTemplater (Type (executor ''f'' ''Broken'' [])) = Some brokenBackend \<and>
   impl_TemplateSubinstallationExecutions brokenBackend (executor ''f'' ''Broken'' [])
     (Blueprint (sampleOptions brokenBlueprint))
     (ComponentDescriptor (sampleOptions brokenBlueprint))
     (ComponentDescriptors (sampleOptions brokenBlueprint)) sampleValues =
     Inl (External ''render'') \<and>
   TemplateSubinstallationExecutions sampleSerializer brokenTemplater
     (sampleOptions brokenBlueprint) = Inl (External ''render'') \<and>
   DeployExecutions (Info (Blueprint (sampleOptions brokenBlueprint))) =
     [executor ''d'' ''GoTemplate'' ''a''] @ executor ''f'' ''Broken'' [] #
     [executor ''e'' ''GoTemplate'' ''b''] \<and>
   list_all (deploySucceeds brokenTemplater (sampleOptions brokenBlueprint) sampleValues)
     [executor ''d'' ''GoTemplate'' ''a''] \<and>
   impl_TemplateDeployExecutions brokenBackend (executor ''f'' ''Broken'' [])
     (Blueprint (sampleOptions brokenBlueprint))
     (ComponentDescriptor (sampleOptions brokenBlueprint))
     (ComponentDescriptors (sampleOptions brokenBlueprint)) sampleValues =
     Inl (External ''render'') \<and>
   TemplateDeployExecutions sampleSerializer sampleValidation brokenTemplater
     (sampleOptions brokenBlueprint) = Inl (External ''render'') \<and>
   ExportExecutions (Info brokenBlueprint) =
     [executor ''first'' ''GoTemplate'' []] @ executor ''f'' ''Broken'' [] #
     [executor ''second'' ''GoTemplate'' []] \<and>
   list_all (exportSucceeds brokenTemplater brokenBlueprint Nil)
     [executor ''first'' ''GoTemplate'' []] \<and>
   impl_TemplateExportExecutions brokenBackend (executor ''f'' ''Broken'' []) brokenBlueprint Nil =
     Inl (External ''render'') \<and>
   TemplateExportExecutions brokenTemplater brokenBlueprint Nil = Inl (External ''render'')"
proof -
  note same = dispatch_arguments [of sampleSerializer "sampleOptions sampleBlueprint"
      sampleValues sampleTemplater brokenTemplater sampleValidation sampleBlueprint Nil]
  note failing = dispatch_arguments [of sampleSerializer "sampleOptions brokenBlueprint"
      sampleValues brokenTemplater brokenTemplater sampleValidation brokenBlueprint Nil]
  have one: "TemplateSubinstallationExecutions sampleSerializer sampleTemplater
     (sampleOptions sampleBlueprint) =
   TemplateSubinstallationExecutions sampleSerializer brokenTemplater
     (sampleOptions sampleBlueprint)"
    using same sample_templateValues [of sampleBlueprint] sample_agree(1) by blast
  have two: "TemplateDeployExecutions sampleSerializer sampleValidation sampleTemplater
     (sampleOptions sampleBlueprint) =
   TemplateDeployExecutions sampleSerializer sampleValidation brokenTemplater
     (sampleOptions sampleBlueprint)"
    using same sample_templateValues [of sampleBlueprint] sample_agree(2) by blast
  have three: "TemplateExportExecutions sampleTemplater sampleBlueprint Nil =
   TemplateExportExecutions brokenTemplater sampleBlueprint Nil"
    using same sample_agree(3) by blast
  have four: "TemplateSubinstallationExecutions sampleSerializer brokenTemplater
     (sampleOptions brokenBlueprint) = Inl (External ''render'')"
    using failing [of "[executor ''a'' ''GoTemplate'' []]" "executor ''f'' ''Broken'' []"
        "[executor ''b'' ''GoTemplate'' []]" brokenBackend "External ''render''"]
      sample_templateValues [of brokenBlueprint] broken_lists(1) broken_prefix(1)
      broken_fails(1,2)
    by blast
  have five: "TemplateDeployExecutions sampleSerializer sampleValidation brokenTemplater
     (sampleOptions brokenBlueprint) = Inl (External ''render'')"
    using failing [of "[executor ''d'' ''GoTemplate'' ''a'']" "executor ''f'' ''Broken'' []"
        "[executor ''e'' ''GoTemplate'' ''b'']" brokenBackend "External ''render''"]
      sample_templateValues [of brokenBlueprint] broken_lists(2) broken_prefix(2)
      broken_fails(1,3)
    by blast
  have six: "TemplateExportExecutions brokenTemplater brokenBlueprint Nil =
      Inl (External ''render'')"
    using failing [of "[executor ''first'' ''GoTemplate'' []]" "executor ''f'' ''Broken'' []"
        "[executor ''second'' ''GoTemplate'' []]" brokenBackend "External ''render''"]
      broken_lists(3) broken_prefix(3) broken_fails(1,4)
    by blast
  show ?thesis
    using one two three four five six sample_templateValues [of sampleBlueprint]
      sample_templateValues [of brokenBlueprint] sample_agree broken_lists broken_prefix
      broken_fails
    by (intro conjI)
qed

subsection \<open>The keys of the value context\<close>

lemma templateValues_cases:
  assumes "templateValues ser opts = Inr vals"
  obtains component components where
    "serializeComponentDescriptor ser (ComponentDescriptor opts) = Inr component"
    "serializeComponentDescriptorList ser (ComponentDescriptors opts) = Inr components"
    "Installation opts = None"
    "vals = [''imports'' \<mapsto> StringMap (Imports opts), ''cd'' \<mapsto> component,
             ''components'' \<mapsto> components]"
  | component components inst blueprintDef where
    "serializeComponentDescriptor ser (ComponentDescriptor opts) = Inr component"
    "serializeComponentDescriptorList ser (ComponentDescriptors opts) = Inr components"
    "Installation opts = Some inst"
    "Spec_ComponentDescriptor (Spec inst) = None"
    "vals = [''imports'' \<mapsto> StringMap (Imports opts), ''cd'' \<mapsto> component,
             ''components'' \<mapsto> components, ''blueprint'' \<mapsto> blueprintDef]"
  | component components inst blueprintDef cdRef cdDef where
    "serializeComponentDescriptor ser (ComponentDescriptor opts) = Inr component"
    "serializeComponentDescriptorList ser (ComponentDescriptors opts) = Inr components"
    "Installation opts = Some inst"
    "Spec_ComponentDescriptor (Spec inst) = Some cdRef"
    "vals = [''imports'' \<mapsto> StringMap (Imports opts), ''cd'' \<mapsto> component,
             ''components'' \<mapsto> components, ''blueprint'' \<mapsto> blueprintDef,
             ''componentDescriptorDef'' \<mapsto> cdDef]"
  using assms
  by (auto simp add: templateValues_def Let_def split: sum.splits option.splits)

lemma serialize_nil:
  "serializeComponentDescriptor ser None = Inr Nil"
  "serializeComponentDescriptorList ser None = Inr Nil"
  by (simp_all add: serializeComponentDescriptor_def serializeComponentDescriptorList_def)


lemma calls_values_subinstallation:
  assumes "templateValues ser opts = Inr vals"
  shows "\<forall>c\<in>set (fst (TemplateSubinstallationExecutions_run ser T opts)). call_values c = Some vals"
proof -
  obtain n where "fst (subinstallationLoop T opts vals
      (SubinstallationExecutions (Info (Blueprint opts))) [] []) =
    [] @ map (\<lambda>e. SubinstallationCall e (Blueprint opts) (ComponentDescriptor opts)
                (ComponentDescriptors opts) vals)
          (take n (SubinstallationExecutions (Info (Blueprint opts))))"
    using subinstallationLoop_calls by blast
  with assms show ?thesis
    by (auto simp add: TemplateSubinstallationExecutions_run_def)
qed

lemma calls_values_deploy:
  assumes "templateValues ser opts = Inr vals"
  shows "\<forall>c\<in>set (fst (TemplateDeployExecutions_run ser val T opts)). call_values c = Some vals"
proof -
  obtain n where "fst (deployLoop T opts vals (DeployExecutions (Info (Blueprint opts))) [] []) =
    [] @ map (\<lambda>e. DeployCall e (Blueprint opts) (ComponentDescriptor opts)
                (ComponentDescriptors opts) vals)
          (take n (DeployExecutions (Info (Blueprint opts))))"
    using deployLoop_calls by blast
  then show ?thesis
    by (auto simp add: deploy_run_calls [OF assms])
qed

text \<open>
  C7. When the sub-installation or the deploy-item pipeline has built its value context
  \<open>vals\<close>, every backend call of the pipeline gets \<open>vals\<close>, and \<open>vals\<close> has the keys
  \<open>imports\<close>, \<open>cd\<close> and \<open>components\<close>; it has \<open>blueprint\<close> exactly when an installation
  is supplied, and \<open>componentDescriptorDef\<close> exactly when an installation with a component
  descriptor reference is supplied. A nil component descriptor or descriptor list is
  serialized to nil without an error and gives a nil entry.
\<close>

theorem value_context_keys:
  assumes "templateValues ser opts = Inr vals"
  shows "(\<forall>c\<in>set (fst (TemplateSubinstallationExecutions_run ser T opts)).
            call_values c = Some vals) \<and>
         (\<forall>c\<in>set (fst (TemplateDeployExecutions_run ser val T opts)).
            call_values c = Some vals) \<and>
         ''imports'' \<in> dom vals \<and> ''cd'' \<in> dom vals \<and> ''components'' \<in> dom vals \<and>
         (''blueprint'' \<in> dom vals \<longleftrightarrow> Installation opts \<noteq> None) \<and>
         (''componentDescriptorDef'' \<in> dom vals \<longleftrightarrow>
            (\<exists>inst. Installation opts = Some inst \<and> Spec_ComponentDescriptor (Spec inst) \<noteq> None)) \<and>
         (ComponentDescriptor opts = None \<longrightarrow> vals ''cd'' = Some Nil) \<and>
         (ComponentDescriptors opts = None \<longrightarrow> vals ''components'' = Some Nil) \<and>
         serializeComponentDescriptor ser None = Inr Nil \<and>
         serializeComponentDescriptorList ser None = Inr Nil"
proof -
  have "''imports'' \<in> dom vals \<and> ''cd'' \<in> dom vals \<and> ''components'' \<in> dom vals \<and>
         (''blueprint'' \<in> dom vals \<longleftrightarrow> Installation opts \<noteq> None) \<and>
         (''componentDescriptorDef'' \<in> dom vals \<longleftrightarrow>
            (\<exists>inst. Installation opts = Some inst \<and> Spec_ComponentDescriptor (Spec inst) \<noteq> None)) \<and>
         (ComponentDescriptor opts = None \<longrightarrow> vals ''cd'' = Some Nil) \<and>
         (ComponentDescriptors opts = None \<longrightarrow> vals ''components'' = Some Nil)"
    using assms
  proof (cases rule: templateValues_cases)
    case (1 component components)
    then show ?thesis by (auto simp add: serialize_nil)
  next
    case (2 component components inst blueprintDef)
    then show ?thesis by (auto simp add: serialize_nil)
  next
    case (3 component components inst blueprintDef cdRef cdDef)
    then show ?thesis by (auto simp add: serialize_nil)
  qed
  then show ?thesis
    using calls_values_subinstallation [OF assms, of T]
      calls_values_deploy [OF assms, of val T]
    by (simp add: serialize_nil)
qed

text \<open>
  C7 on options with an installation that has a component descriptor reference and with
  a nil component descriptor, and on options with no installation and a nil descriptor
  list.
\<close>

theorem value_context_keys_witness:
  "templateValues sampleSerializer installedOptions = Inr installedValues \<and>
   call_values ` set (fst (TemplateSubinstallationExecutions_run sampleSerializer sampleTemplater
        installedOptions)) \<subseteq> {Some installedValues} \<and>
   call_values ` set (fst (TemplateDeployExecutions_run sampleSerializer sampleValidation
        sampleTemplater installedOptions)) \<subseteq> {Some installedValues} \<and>
   ''imports'' \<in> dom installedValues \<and> ''cd'' \<in> dom installedValues \<and>
   ''components'' \<in> dom installedValues \<and> ''blueprint'' \<in> dom installedValues \<and>
   ''componentDescriptorDef'' \<in> dom installedValues \<and>
   ComponentDescriptor installedOptions = None \<and> installedValues ''cd'' = Some Nil \<and>
   templateValues sampleSerializer (sampleOptions sampleBlueprint) = Inr sampleValues \<and>
   ComponentDescriptors (sampleOptions sampleBlueprint) = None \<and>
   sampleValues ''components'' = Some Nil \<and>
   Installation (sampleOptions sampleBlueprint) = None \<and>
   ''blueprint'' \<notin> dom sampleValues \<and> ''componentDescriptorDef'' \<notin> dom sampleValues"
proof -
  have plain: "ComponentDescriptors (sampleOptions sampleBlueprint) = None"
    "Installation (sampleOptions sampleBlueprint) = None"
    by (simp_all add: sampleOptions_def)
  have without: "sampleValues ''components'' = Some Nil \<and>
      ''blueprint'' \<notin> dom sampleValues \<and> ''componentDescriptorDef'' \<notin> dom sampleValues"
    using plain
      value_context_keys [OF sample_templateValues [of sampleBlueprint],
        of sampleTemplater sampleValidation]
    by auto
  have built: "templateValues sampleSerializer installedOptions = Inr installedValues"
    by (simp add: templateValues_def installedOptions_def installedValues_def
        sampleSerializer_def serializeComponentDescriptor_def
        serializeComponentDescriptorList_def)
  have inst: "Installation installedOptions =
      Some \<lparr>Spec = \<lparr>Spec_Blueprint = (), Spec_ComponentDescriptor = Some ()\<rparr>\<rparr>"
    and cd: "ComponentDescriptor installedOptions = None"
    by (simp_all add: installedOptions_def)
  have "call_values ` set (fst (TemplateSubinstallationExecutions_run sampleSerializer
        sampleTemplater installedOptions)) \<subseteq> {Some installedValues} \<and>
      call_values ` set (fst (TemplateDeployExecutions_run sampleSerializer sampleValidation
        sampleTemplater installedOptions)) \<subseteq> {Some installedValues} \<and>
      ''imports'' \<in> dom installedValues \<and> ''cd'' \<in> dom installedValues \<and>
      ''components'' \<in> dom installedValues \<and> ''blueprint'' \<in> dom installedValues \<and>
      ''componentDescriptorDef'' \<in> dom installedValues \<and>
      installedValues ''cd'' = Some Nil"
    using inst cd
      value_context_keys [OF built, of sampleTemplater sampleValidation]
    by auto
  then show ?thesis
    using built cd plain without sample_templateValues [of sampleBlueprint]
    by (intro conjI) simp_all
qed

subsection \<open>Aggregation in executor order\<close>

lemma subinstallation_all_succeed:
  assumes "templateValues ser opts = Inr vals"
    and "list_all (subinstallationSucceeds T opts vals)
           (SubinstallationExecutions (Info (Blueprint opts)))"
  shows "TemplateSubinstallationExecutions ser T opts =
    Inr (concat (map (executorSubinstallations T opts vals)
           (SubinstallationExecutions (Info (Blueprint opts)))))"
  using assms
  by (simp add: TemplateSubinstallationExecutions_def TemplateSubinstallationExecutions_run_def
      subinstallationLoop_success)

lemma deploy_all_succeed:
  assumes "templateValues ser opts = Inr vals"
    and "list_all (deploySucceeds T opts vals) (DeployExecutions (Info (Blueprint opts)))"
  shows "TemplateDeployExecutions ser val T opts =
    (case validateDeployItemList val ''deployExecutions''
            (concat (map (executorDeployItems T opts vals)
               (DeployExecutions (Info (Blueprint opts))))) of
       Some err \<Rightarrow> Inl err
     | None \<Rightarrow> Inr (concat (map (executorDeployItems T opts vals)
                      (DeployExecutions (Info (Blueprint opts))))))"
  using assms
  by (simp add: TemplateDeployExecutions_def TemplateDeployExecutions_run_def
      deployLoop_success split: option.splits)

text \<open>
  C6, as amended. In a pipeline whose value context is built and whose executors all
  succeed, an executor contributes the items of its output list in their order, and none
  for a nil list. The sub-installation pipeline returns the concatenation of these
  contributions in the order of the executors; the deploy-item pipeline returns it when
  the validation of that concatenation finds nothing.
\<close>

theorem aggregation_concatenates:
  assumes "templateValues ser opts = Inr vals"
  shows "(list_all (subinstallationSucceeds T opts vals)
            (SubinstallationExecutions (Info (Blueprint opts))) \<longrightarrow>
          TemplateSubinstallationExecutions ser T opts =
            Inr (concat (map (executorSubinstallations T opts vals)
                   (SubinstallationExecutions (Info (Blueprint opts)))))) \<and>
         (list_all (deploySucceeds T opts vals) (DeployExecutions (Info (Blueprint opts))) \<and>
          validateDeployItemList val ''deployExecutions''
            (concat (map (executorDeployItems T opts vals)
               (DeployExecutions (Info (Blueprint opts))))) = None \<longrightarrow>
          TemplateDeployExecutions ser val T opts =
            Inr (concat (map (executorDeployItems T opts vals)
                   (DeployExecutions (Info (Blueprint opts)))))) \<and>
         (\<forall>e b out. impl T (Type e) = Some b \<and>
            impl_TemplateSubinstallationExecutions b e (Blueprint opts)
              (ComponentDescriptor opts) (ComponentDescriptors opts) vals = Inr out \<longrightarrow>
            executorSubinstallations T opts vals e =
              (case Subinstallations out of None \<Rightarrow> [] | Some items \<Rightarrow> items)) \<and>
         (\<forall>e b out. impl T (Type e) = Some b \<and>
            impl_TemplateDeployExecutions b e (Blueprint opts)
              (ComponentDescriptor opts) (ComponentDescriptors opts) vals = Inr out \<longrightarrow>
            executorDeployItems T opts vals e =
              (case DeployItems out of None \<Rightarrow> [] | Some items \<Rightarrow> items))"
proof (intro conjI impI allI)
  assume "list_all (subinstallationSucceeds T opts vals)
            (SubinstallationExecutions (Info (Blueprint opts)))"
  then show "TemplateSubinstallationExecutions ser T opts =
            Inr (concat (map (executorSubinstallations T opts vals)
                   (SubinstallationExecutions (Info (Blueprint opts)))))"
    by (rule subinstallation_all_succeed [OF assms])
next
  assume "list_all (deploySucceeds T opts vals) (DeployExecutions (Info (Blueprint opts))) \<and>
          validateDeployItemList val ''deployExecutions''
            (concat (map (executorDeployItems T opts vals)
               (DeployExecutions (Info (Blueprint opts))))) = None"
  then show "TemplateDeployExecutions ser val T opts =
            Inr (concat (map (executorDeployItems T opts vals)
                   (DeployExecutions (Info (Blueprint opts)))))"
    by (simp add: deploy_all_succeed [OF assms])
next
  fix e b out
  assume "impl T (Type e) = Some b \<and>
            impl_TemplateSubinstallationExecutions b e (Blueprint opts)
              (ComponentDescriptor opts) (ComponentDescriptors opts) vals = Inr out"
  then show "executorSubinstallations T opts vals e =
              (case Subinstallations out of None \<Rightarrow> [] | Some items \<Rightarrow> items)"
    by (simp add: executorSubinstallations_def)
next
  fix e b out
  assume "impl T (Type e) = Some b \<and>
            impl_TemplateDeployExecutions b e (Blueprint opts)
              (ComponentDescriptor opts) (ComponentDescriptors opts) vals = Inr out"
  then show "executorDeployItems T opts vals e =
              (case DeployItems out of None \<Rightarrow> [] | Some items \<Rightarrow> items)"
    by (simp add: executorDeployItems_def)
qed

lemma sample_subinstallations:
  "list_all (subinstallationSucceeds sampleTemplater (sampleOptions sampleBlueprint) sampleValues)
     (SubinstallationExecutions (Info (Blueprint (sampleOptions sampleBlueprint))))"
  "concat (map (executorSubinstallations sampleTemplater (sampleOptions sampleBlueprint) sampleValues)
     (SubinstallationExecutions (Info (Blueprint (sampleOptions sampleBlueprint))))) =
   [''a1'', ''a2'', ''b1'', ''b2'']"
  by (simp_all add: subinstallationSucceeds_def executorSubinstallations_def sample_impl
      sampleOptions_def sampleBlueprint_def executor_def sampleBackend_def)

lemma sample_deploy_items:
  "list_all (deploySucceeds sampleTemplater (sampleOptions sampleBlueprint) sampleValues)
     (DeployExecutions (Info (Blueprint (sampleOptions sampleBlueprint))))"
  "concat (map (executorDeployItems sampleTemplater (sampleOptions sampleBlueprint) sampleValues)
     (DeployExecutions (Info (Blueprint (sampleOptions sampleBlueprint))))) =
   [''d'', ''a'', ''e'', ''b'']"
  by (simp_all add: deploySucceeds_def executorDeployItems_def sample_impl
      sampleOptions_def sampleBlueprint_def executor_def sampleBackend_def)

lemma sample_validation_accepts:
  "validateDeployItemList sampleValidation ''deployExecutions'' [''d'', ''a'', ''e'', ''b''] = None"
  by (simp add: validateDeployItemList_def sampleValidation_def ToAggregate_def)

text \<open>
  C6, as amended, on the sample blueprint, whose second sub-installation executor returns
  a nil list.
\<close>

theorem aggregation_concatenates_witness:
  "templateValues sampleSerializer (sampleOptions sampleBlueprint) = Inr sampleValues \<and>
   list_all (subinstallationSucceeds sampleTemplater (sampleOptions sampleBlueprint) sampleValues)
     (SubinstallationExecutions (Info (Blueprint (sampleOptions sampleBlueprint)))) \<and>
   TemplateSubinstallationExecutions sampleSerializer sampleTemplater
     (sampleOptions sampleBlueprint) = Inr [''a1'', ''a2'', ''b1'', ''b2''] \<and>
   list_all (deploySucceeds sampleTemplater (sampleOptions sampleBlueprint) sampleValues)
     (DeployExecutions (Info (Blueprint (sampleOptions sampleBlueprint)))) \<and>
   validateDeployItemList sampleValidation ''deployExecutions'' [''d'', ''a'', ''e'', ''b''] = None \<and>
   TemplateDeployExecutions sampleSerializer sampleValidation sampleTemplater
     (sampleOptions sampleBlueprint) = Inr [''d'', ''a'', ''e'', ''b''] \<and>
   impl sampleTemplater (Type (executor ''none'' ''GoTemplate'' [])) = Some sampleBackend \<and>
   impl_TemplateSubinstallationExecutions sampleBackend (executor ''none'' ''GoTemplate'' [])
     (Blueprint (sampleOptions sampleBlueprint))
     (ComponentDescriptor (sampleOptions sampleBlueprint))
     (ComponentDescriptors (sampleOptions sampleBlueprint)) sampleValues =
       Inr \<lparr>Subinstallations = None\<rparr> \<and>
   executorSubinstallations sampleTemplater (sampleOptions sampleBlueprint) sampleValues
     (executor ''none'' ''GoTemplate'' []) = []"
proof -
  note at_sample = aggregation_concatenates [OF sample_templateValues [of sampleBlueprint],
      of sampleTemplater sampleValidation]
  have registered: "impl sampleTemplater (Type (executor ''none'' ''GoTemplate'' [])) =
      Some sampleBackend"
    by (simp add: sample_impl executor_def)
  have nil_list: "impl_TemplateSubinstallationExecutions sampleBackend
      (executor ''none'' ''GoTemplate'' []) (Blueprint (sampleOptions sampleBlueprint))
      (ComponentDescriptor (sampleOptions sampleBlueprint))
      (ComponentDescriptors (sampleOptions sampleBlueprint)) sampleValues =
        Inr \<lparr>Subinstallations = None\<rparr>"
    by (simp add: sampleBackend_def executor_def)
  have "executorSubinstallations sampleTemplater (sampleOptions sampleBlueprint) sampleValues
     (executor ''none'' ''GoTemplate'' []) = []"
    using at_sample registered nil_list by fastforce
  moreover have "TemplateSubinstallationExecutions sampleSerializer sampleTemplater
     (sampleOptions sampleBlueprint) = Inr [''a1'', ''a2'', ''b1'', ''b2'']"
    using at_sample sample_subinstallations by simp
  moreover have "TemplateDeployExecutions sampleSerializer sampleValidation sampleTemplater
     (sampleOptions sampleBlueprint) = Inr [''d'', ''a'', ''e'', ''b'']"
    using at_sample sample_deploy_items sample_validation_accepts by simp
  ultimately show ?thesis
    using sample_templateValues sample_subinstallations(1) sample_deploy_items(1)
      sample_validation_accepts registered nil_list
    by simp
qed

lemma nameless_deploy_items:
  "list_all (deploySucceeds sampleTemplater (sampleOptions namelessBlueprint) sampleValues)
     (DeployExecutions (Info (Blueprint (sampleOptions namelessBlueprint))))"
  "concat (map (executorDeployItems sampleTemplater (sampleOptions namelessBlueprint) sampleValues)
     (DeployExecutions (Info (Blueprint (sampleOptions namelessBlueprint))))) =
   [''d'', [], ''e'', []]"
  by (simp_all add: deploySucceeds_def executorDeployItems_def sample_impl
      sampleOptions_def namelessBlueprint_def executor_def sampleBackend_def)

lemma nameless_validation:
  "validateDeployItemList sampleValidation ''deployExecutions'' [''d'', [], ''e'', []] =
   Some (Aggregate [(''deployExecutions[1]'', ''Required value''),
                    (''deployExecutions[3]'', ''Required value'')])"
  by (simp add: validateDeployItemList_def sampleValidation_def ToAggregate_def)

lemma nameless_deploy:
  "TemplateDeployExecutions sampleSerializer sampleValidation sampleTemplater
     (sampleOptions namelessBlueprint) =
   Inl (Aggregate [(''deployExecutions[1]'', ''Required value''),
                   (''deployExecutions[3]'', ''Required value'')])"
  using deploy_all_succeed [OF sample_templateValues nameless_deploy_items(1), of sampleValidation]
  by (simp add: nameless_deploy_items(2) nameless_validation)

text \<open>
  C6, as stated, fails in the deploy-item pipeline: the two deploy executors of this
  blueprint succeed, and the operation does not return the concatenation of their items,
  which the validation rejects.
\<close>

theorem aggregation_concatenates_counterexample:
  "templateValues sampleSerializer (sampleOptions namelessBlueprint) = Inr sampleValues \<and>
   list_all (deploySucceeds sampleTemplater (sampleOptions namelessBlueprint) sampleValues)
     (DeployExecutions (Info (Blueprint (sampleOptions namelessBlueprint)))) \<and>
   concat (map (executorDeployItems sampleTemplater (sampleOptions namelessBlueprint) sampleValues)
     (DeployExecutions (Info (Blueprint (sampleOptions namelessBlueprint))))) =
     [''d'', [], ''e'', []] \<and>
   TemplateDeployExecutions sampleSerializer sampleValidation sampleTemplater
     (sampleOptions namelessBlueprint) \<noteq> Inr [''d'', [], ''e'', []]"
  using sample_templateValues nameless_deploy_items nameless_deploy by simp

subsection \<open>Validation of the aggregated deploy items\<close>

text \<open>
  C8, as amended. When the value context is built and all deploy executors succeed, the
  list handed to \<^verbatim>\<open>validateDeployItemList\<close> is the whole aggregated list, and an error of
  that validation is returned in place of the list. When the list converts, the error is
  the aggregate of all the violations that the rules find in it, and the list is returned
  when they find none; when the conversion fails, the error is the error of the
  conversion.
\<close>

theorem deploy_items_validated:
  assumes "templateValues ser opts = Inr vals"
    and "list_all (deploySucceeds T opts vals) (DeployExecutions (Info (Blueprint opts)))"
  shows "TemplateDeployExecutions ser val T opts =
           (case validateDeployItemList val ''deployExecutions''
                   (concat (map (executorDeployItems T opts vals)
                      (DeployExecutions (Info (Blueprint opts))))) of
              Some err \<Rightarrow> Inl err
            | None \<Rightarrow> Inr (concat (map (executorDeployItems T opts vals)
                             (DeployExecutions (Info (Blueprint opts)))))) \<and>
         (\<forall>coreList.
            Convert_DeployItemTemplateList val
              (concat (map (executorDeployItems T opts vals)
                 (DeployExecutions (Info (Blueprint opts))))) = Inr coreList \<and>
            ValidateDeployItemTemplateList val ''deployExecutions'' coreList \<noteq> [] \<longrightarrow>
            TemplateDeployExecutions ser val T opts =
              Inl (Aggregate (ValidateDeployItemTemplateList val ''deployExecutions'' coreList))) \<and>
         (\<forall>coreList.
            Convert_DeployItemTemplateList val
              (concat (map (executorDeployItems T opts vals)
                 (DeployExecutions (Info (Blueprint opts))))) = Inr coreList \<and>
            ValidateDeployItemTemplateList val ''deployExecutions'' coreList = [] \<longrightarrow>
            TemplateDeployExecutions ser val T opts =
              Inr (concat (map (executorDeployItems T opts vals)
                     (DeployExecutions (Info (Blueprint opts)))))) \<and>
         (\<forall>err.
            Convert_DeployItemTemplateList val
              (concat (map (executorDeployItems T opts vals)
                 (DeployExecutions (Info (Blueprint opts))))) = Inl err \<longrightarrow>
            TemplateDeployExecutions ser val T opts = Inl err)"
proof -
  let ?agg = "concat (map (executorDeployItems T opts vals)
                 (DeployExecutions (Info (Blueprint opts))))"
  have result: "TemplateDeployExecutions ser val T opts =
      (case validateDeployItemList val ''deployExecutions'' ?agg of
         Some err \<Rightarrow> Inl err | None \<Rightarrow> Inr ?agg)"
    by (rule deploy_all_succeed [OF assms])
  have "TemplateDeployExecutions ser val T opts =
      Inl (Aggregate (ValidateDeployItemTemplateList val ''deployExecutions'' coreList))"
    if "Convert_DeployItemTemplateList val ?agg = Inr coreList"
      and "ValidateDeployItemTemplateList val ''deployExecutions'' coreList \<noteq> []"
    for coreList
    using that by (simp add: result validateDeployItemList_def ToAggregate_def)
  moreover have "TemplateDeployExecutions ser val T opts = Inr ?agg"
    if "Convert_DeployItemTemplateList val ?agg = Inr coreList"
      and "ValidateDeployItemTemplateList val ''deployExecutions'' coreList = []"
    for coreList
    using that by (simp add: result validateDeployItemList_def ToAggregate_def)
  moreover have "TemplateDeployExecutions ser val T opts = Inl err"
    if "Convert_DeployItemTemplateList val ?agg = Inl err" for err
    using that by (simp add: result validateDeployItemList_def)
  ultimately show ?thesis
    using result by blast
qed

text \<open>
  C8, as amended, on a blueprint whose deploy executors produce two items without a name:
  the error holds both violations; with a conversion that fails, the error is that of the
  conversion; and on the sample blueprint, whose items pass.
\<close>

theorem deploy_items_validated_witness:
  "templateValues sampleSerializer (sampleOptions namelessBlueprint) = Inr sampleValues \<and>
   list_all (deploySucceeds sampleTemplater (sampleOptions namelessBlueprint) sampleValues)
     (DeployExecutions (Info (Blueprint (sampleOptions namelessBlueprint)))) \<and>
   Convert_DeployItemTemplateList sampleValidation
     (concat (map (executorDeployItems sampleTemplater (sampleOptions namelessBlueprint)
        sampleValues) (DeployExecutions (Info (Blueprint (sampleOptions namelessBlueprint)))))) =
     Inr [''d'', [], ''e'', []] \<and>
   ValidateDeployItemTemplateList sampleValidation ''deployExecutions'' [''d'', [], ''e'', []] =
     [(''deployExecutions[1]'', ''Required value''), (''deployExecutions[3]'', ''Required value'')] \<and>
   TemplateDeployExecutions sampleSerializer sampleValidation sampleTemplater
     (sampleOptions namelessBlueprint) =
     Inl (Aggregate [(''deployExecutions[1]'', ''Required value''),
                     (''deployExecutions[3]'', ''Required value'')]) \<and>
   Convert_DeployItemTemplateList unconvertibleValidation
     (concat (map (executorDeployItems sampleTemplater (sampleOptions namelessBlueprint)
        sampleValues) (DeployExecutions (Info (Blueprint (sampleOptions namelessBlueprint)))))) =
     Inl (External ''conversion'') \<and>
   TemplateDeployExecutions sampleSerializer unconvertibleValidation sampleTemplater
     (sampleOptions namelessBlueprint) = Inl (External ''conversion'') \<and>
   templateValues sampleSerializer (sampleOptions sampleBlueprint) = Inr sampleValues \<and>
   list_all (deploySucceeds sampleTemplater (sampleOptions sampleBlueprint) sampleValues)
     (DeployExecutions (Info (Blueprint (sampleOptions sampleBlueprint)))) \<and>
   Convert_DeployItemTemplateList sampleValidation
     (concat (map (executorDeployItems sampleTemplater (sampleOptions sampleBlueprint)
        sampleValues) (DeployExecutions (Info (Blueprint (sampleOptions sampleBlueprint)))))) =
     Inr [''d'', ''a'', ''e'', ''b''] \<and>
   ValidateDeployItemTemplateList sampleValidation ''deployExecutions''
     [''d'', ''a'', ''e'', ''b''] = [] \<and>
   TemplateDeployExecutions sampleSerializer sampleValidation sampleTemplater
     (sampleOptions sampleBlueprint) = Inr [''d'', ''a'', ''e'', ''b'']"
proof -
  have unconv: "Convert_DeployItemTemplateList unconvertibleValidation
     (concat (map (executorDeployItems sampleTemplater (sampleOptions namelessBlueprint)
        sampleValues) (DeployExecutions (Info (Blueprint (sampleOptions namelessBlueprint)))))) =
     Inl (External ''conversion'')"
    by (simp add: unconvertibleValidation_def)
  have refused: "TemplateDeployExecutions sampleSerializer unconvertibleValidation
      sampleTemplater (sampleOptions namelessBlueprint) = Inl (External ''conversion'')"
    using deploy_items_validated [OF sample_templateValues nameless_deploy_items(1),
        of unconvertibleValidation] unconv
    by blast
  have conv_ok: "Convert_DeployItemTemplateList sampleValidation
     (concat (map (executorDeployItems sampleTemplater (sampleOptions sampleBlueprint)
        sampleValues) (DeployExecutions (Info (Blueprint (sampleOptions sampleBlueprint)))))) =
     Inr [''d'', ''a'', ''e'', ''b'']"
    by (simp add: sample_deploy_items(2) sampleValidation_def)
  have no_errs: "ValidateDeployItemTemplateList sampleValidation ''deployExecutions''
      [''d'', ''a'', ''e'', ''b''] = []"
    by (simp add: sampleValidation_def)
  have "TemplateDeployExecutions sampleSerializer sampleValidation sampleTemplater
      (sampleOptions sampleBlueprint) =
    Inr (concat (map (executorDeployItems sampleTemplater (sampleOptions sampleBlueprint)
        sampleValues) (DeployExecutions (Info (Blueprint (sampleOptions sampleBlueprint))))))"
    using deploy_items_validated [OF sample_templateValues sample_deploy_items(1),
        of sampleValidation] conv_ok no_errs
    by blast
  then have accepted: "TemplateDeployExecutions sampleSerializer sampleValidation
      sampleTemplater (sampleOptions sampleBlueprint) = Inr [''d'', ''a'', ''e'', ''b'']"
    by (simp add: sample_deploy_items(2))
  have conv: "Convert_DeployItemTemplateList sampleValidation
     (concat (map (executorDeployItems sampleTemplater (sampleOptions namelessBlueprint)
        sampleValues) (DeployExecutions (Info (Blueprint (sampleOptions namelessBlueprint)))))) =
     Inr [''d'', [], ''e'', []]"
    by (simp add: nameless_deploy_items(2) sampleValidation_def)
  have errs: "ValidateDeployItemTemplateList sampleValidation ''deployExecutions''
      [''d'', [], ''e'', []] =
     [(''deployExecutions[1]'', ''Required value''), (''deployExecutions[3]'', ''Required value'')]"
    by (simp add: sampleValidation_def)
  have "Convert_DeployItemTemplateList sampleValidation
     (concat (map (executorDeployItems sampleTemplater (sampleOptions namelessBlueprint)
        sampleValues) (DeployExecutions (Info (Blueprint (sampleOptions namelessBlueprint)))))) =
     Inr [''d'', [], ''e'', []] \<and>
    ValidateDeployItemTemplateList sampleValidation ''deployExecutions''
      [''d'', [], ''e'', []] \<noteq> [] \<longrightarrow>
    TemplateDeployExecutions sampleSerializer sampleValidation sampleTemplater
      (sampleOptions namelessBlueprint) =
    Inl (Aggregate (ValidateDeployItemTemplateList sampleValidation ''deployExecutions''
      [''d'', [], ''e'', []]))"
    using deploy_items_validated [OF sample_templateValues nameless_deploy_items(1),
        of sampleValidation]
    by blast
  then have "TemplateDeployExecutions sampleSerializer sampleValidation sampleTemplater
     (sampleOptions namelessBlueprint) =
     Inl (Aggregate [(''deployExecutions[1]'', ''Required value''),
                     (''deployExecutions[3]'', ''Required value'')])"
    unfolding errs using conv by simp
  then show ?thesis
    using conv errs sample_templateValues nameless_deploy_items(1) unconv refused
      sample_deploy_items(1) conv_ok no_errs accepted
    by simp
qed

lemma unconvertible_deploy:
  "TemplateDeployExecutions sampleSerializer unconvertibleValidation sampleTemplater
     (sampleOptions namelessBlueprint) = Inl (External ''conversion'')"
  using deploy_all_succeed [OF sample_templateValues nameless_deploy_items(1),
      of unconvertibleValidation]
  by (simp add: validateDeployItemList_def unconvertibleValidation_def)

text \<open>
  C8, as stated, fails: the deploy executors of this blueprint succeed and the validation
  of their items fails, with the error of the conversion, which is no aggregate of
  violations.
\<close>

theorem deploy_items_validated_counterexample:
  "templateValues sampleSerializer (sampleOptions namelessBlueprint) = Inr sampleValues \<and>
   list_all (deploySucceeds sampleTemplater (sampleOptions namelessBlueprint) sampleValues)
     (DeployExecutions (Info (Blueprint (sampleOptions namelessBlueprint)))) \<and>
   concat (map (executorDeployItems sampleTemplater (sampleOptions namelessBlueprint)
     sampleValues) (DeployExecutions (Info (Blueprint (sampleOptions namelessBlueprint))))) =
     [''d'', [], ''e'', []] \<and>
   validateDeployItemList unconvertibleValidation ''deployExecutions'' [''d'', [], ''e'', []] =
     Some (External ''conversion'') \<and>
   TemplateDeployExecutions sampleSerializer unconvertibleValidation sampleTemplater
     (sampleOptions namelessBlueprint) = Inl (External ''conversion'')"
proof -
  have "validateDeployItemList unconvertibleValidation ''deployExecutions''
      [''d'', [], ''e'', []] = Some (External ''conversion'')"
    by (simp add: validateDeployItemList_def unconvertibleValidation_def)
  then show ?thesis
    using sample_templateValues nameless_deploy_items unconvertible_deploy by simp
qed

section \<open>Properties of the execution operations\<close>

subsection \<open>The status update\<close>

lemma UpdateStatus_eq:
  "UpdateStatus w exec s phase upd =
     (fst (UpdateExecutionStatus w s
        (exec\<lparr>Status := (Status exec)\<lparr>Phase := phase,
           Conditions := MergeConditions (Conditions (Status exec)) upd\<rparr>\<rparr>)),
      exec\<lparr>Status := (Status exec)\<lparr>Phase := phase,
           Conditions := MergeConditions (Conditions (Status exec)) upd\<rparr>\<rparr>,
      snd (UpdateExecutionStatus w s
        (exec\<lparr>Status := (Status exec)\<lparr>Phase := phase,
           Conditions := MergeConditions (Conditions (Status exec)) upd\<rparr>\<rparr>)))"
  by (simp add: UpdateStatus_def Let_def split: prod.splits option.splits)

text \<open>
  C9. \<^verbatim>\<open>UpdateStatus\<close> hands to the writer the execution that already has the supplied
  phase and the merged conditions; when the writer fails, the error is returned and the
  execution in memory is that updated one: the mutation is not rolled back.
\<close>

theorem update_status_keeps_mutation:
  assumes "UpdateExecutionStatus w s
             (exec\<lparr>Status := (Status exec)\<lparr>Phase := phase,
                Conditions := MergeConditions (Conditions (Status exec)) upd\<rparr>\<rparr>) = (Some err, s')"
  shows "UpdateStatus w exec s phase upd =
           (Some err,
            exec\<lparr>Status := (Status exec)\<lparr>Phase := phase,
               Conditions := MergeConditions (Conditions (Status exec)) upd\<rparr>\<rparr>,
            s')"
  using assms by (simp add: UpdateStatus_eq)

lemma conditionIndex_Some:
  "conditionIndex xs t = Some i \<Longrightarrow> i < length xs \<and> cond_Type (xs ! i) = t"
  by (induction xs arbitrary: i) (auto split: if_splits)

lemma conditionIndex_None:
  "conditionIndex xs t = None \<longleftrightarrow> t \<notin> cond_Type ` set xs"
  by (induction xs) auto

lemma mergeCondition_index:
  "mergeCondition xs c =
     (case conditionIndex xs (cond_Type c) of Some i \<Rightarrow> xs[i := c] | None \<Rightarrow> xs @ [c])"
  by (induction xs) (auto split: option.splits)

lemma mergeCondition_filter:
  "cond_Type c \<in> S \<Longrightarrow>
   filter (\<lambda>x. cond_Type x \<notin> S) (mergeCondition xs c) = filter (\<lambda>x. cond_Type x \<notin> S) xs"
  by (induction xs) auto

lemma MergeConditions_filter:
  "cond_Type ` set upd \<subseteq> S \<Longrightarrow>
   filter (\<lambda>x. cond_Type x \<notin> S) (MergeConditions xs upd) = filter (\<lambda>x. cond_Type x \<notin> S) xs"
  unfolding MergeConditions_def
  by (induction upd arbitrary: xs) (simp_all add: mergeCondition_filter)

lemma mergeCondition_types:
  "length xs \<le> length (mergeCondition xs c) \<and>
   take (length xs) (map cond_Type (mergeCondition xs c)) = map cond_Type xs"
  by (induction xs) auto

lemma MergeConditions_types:
  "length xs \<le> length (MergeConditions xs upd) \<and>
   take (length xs) (map cond_Type (MergeConditions xs upd)) = map cond_Type xs"
  unfolding MergeConditions_def
proof (induction upd arbitrary: xs)
  case Nil
  then show ?case by simp
next
  case (Cons c upd)
  let ?ys = "mergeCondition xs c"
  let ?zs = "foldl mergeCondition ?ys upd"
  from Cons.IH [of ?ys] have len: "length ?ys \<le> length ?zs"
    and types: "take (length ?ys) (map cond_Type ?zs) = map cond_Type ?ys" by simp_all
  from mergeCondition_types [of xs c] have len0: "length xs \<le> length ?ys"
    and types0: "take (length xs) (map cond_Type ?ys) = map cond_Type xs" by simp_all
  have "take (length xs) (map cond_Type ?zs) =
      take (length xs) (take (length ?ys) (map cond_Type ?zs))"
    using len0 by (simp add: min_def)
  also have "\<dots> = map cond_Type xs"
    using types types0 by simp
  finally show ?case using len len0 by simp
qed

lemma MergeConditions_step:
  "MergeConditions xs [c] = mergeCondition xs c"
  "MergeConditions xs (c # cs) = MergeConditions (MergeConditions xs [c]) cs"
  by (simp_all add: MergeConditions_def)

text \<open>
  C5. After \<^verbatim>\<open>UpdateStatus\<close>, whether or not it returns an error, the phase of the
  execution is the supplied phase and its conditions are the merge of the former ones
  with the supplied ones. In that merge a single condition replaces the first condition
  of its type at the same index, or is appended when its type is new; several conditions
  are merged one after the other; the conditions whose type is not supplied are kept, in
  their order; and the types at the former positions do not change.
\<close>

theorem update_status_merges:
  assumes "UpdateStatus w exec s phase upd = (err, exec', s')"
  shows "Phase (Status exec') = phase \<and>
         Conditions (Status exec') = MergeConditions (Conditions (Status exec)) upd \<and>
         (\<forall>xs c. MergeConditions xs [c] =
            (case conditionIndex xs (cond_Type c) of
               Some i \<Rightarrow> xs[i := c]
             | None \<Rightarrow> xs @ [c])) \<and>
         (\<forall>xs t i. conditionIndex xs t = Some i \<longrightarrow> i < length xs \<and> cond_Type (xs ! i) = t) \<and>
         (\<forall>xs t. conditionIndex xs t = None \<longleftrightarrow> t \<notin> cond_Type ` set xs) \<and>
         (\<forall>xs c cs. MergeConditions xs (c # cs) = MergeConditions (MergeConditions xs [c]) cs) \<and>
         filter (\<lambda>x. cond_Type x \<notin> cond_Type ` set upd) (Conditions (Status exec')) =
           filter (\<lambda>x. cond_Type x \<notin> cond_Type ` set upd) (Conditions (Status exec)) \<and>
         take (length (Conditions (Status exec))) (map cond_Type (Conditions (Status exec'))) =
           map cond_Type (Conditions (Status exec))"
proof -
  from assms have exec': "exec' = exec\<lparr>Status := (Status exec)\<lparr>Phase := phase,
      Conditions := MergeConditions (Conditions (Status exec)) upd\<rparr>\<rparr>"
    by (simp add: UpdateStatus_eq)
  then have "Phase (Status exec') = phase"
    and conds: "Conditions (Status exec') = MergeConditions (Conditions (Status exec)) upd"
    by simp_all
  moreover have "filter (\<lambda>x. cond_Type x \<notin> cond_Type ` set upd) (Conditions (Status exec')) =
      filter (\<lambda>x. cond_Type x \<notin> cond_Type ` set upd) (Conditions (Status exec))"
    unfolding conds by (rule MergeConditions_filter) simp
  moreover have "take (length (Conditions (Status exec)))
        (map cond_Type (Conditions (Status exec'))) =
      map cond_Type (Conditions (Status exec))"
    unfolding conds using MergeConditions_types by blast
  moreover have "\<forall>xs c. MergeConditions xs [c] =
      (case conditionIndex xs (cond_Type c) of Some i \<Rightarrow> xs[i := c] | None \<Rightarrow> xs @ [c])"
    by (simp add: MergeConditions_step(1) mergeCondition_index)
  moreover have "\<forall>xs t i. conditionIndex xs t = Some i \<longrightarrow>
      i < length xs \<and> cond_Type (xs ! i) = t"
    using conditionIndex_Some by blast
  moreover have "\<forall>xs t. conditionIndex xs t = None \<longleftrightarrow> t \<notin> cond_Type ` set xs"
    using conditionIndex_None by blast
  moreover have "\<forall>xs c cs. MergeConditions xs (c # cs) =
      MergeConditions (MergeConditions xs [c]) cs"
    using MergeConditions_step(2) by blast
  ultimately show ?thesis
    by (intro conjI)
qed

lemma sample_merge:
  "MergeConditions (Conditions (Status sampleExecution))
     [condition ''Ready'' ''True'', condition ''Exported'' ''True''] =
   [condition ''Reconcile'' ''False'', condition ''Ready'' ''True'', condition ''Exported'' ''True'']"
  by (simp add: MergeConditions_def sampleExecution_def condition_def)

lemma sample_progressing:
  "sampleExecution\<lparr>Status := (Status sampleExecution)\<lparr>Phase := ''Progressing'',
     Conditions := MergeConditions (Conditions (Status sampleExecution))
       [condition ''Ready'' ''True'', condition ''Exported'' ''True'']\<rparr>\<rparr> = progressingExecution"
  unfolding sample_merge
  by (simp add: progressingExecution_def sampleExecution_def)

text \<open>
  C9 on the sample execution with a writer that fails: the phase in memory has changed
  from \<open>Init\<close> to \<open>Progressing\<close>.
\<close>

theorem update_status_keeps_mutation_witness:
  "UpdateExecutionStatus failingWriter emptyStore
     (sampleExecution\<lparr>Status := (Status sampleExecution)\<lparr>Phase := ''Progressing'',
        Conditions := MergeConditions (Conditions (Status sampleExecution))
          [condition ''Ready'' ''True'', condition ''Exported'' ''True'']\<rparr>\<rparr>) =
     (Some (External ''conflict''), emptyStore) \<and>
   UpdateStatus failingWriter sampleExecution emptyStore ''Progressing''
     [condition ''Ready'' ''True'', condition ''Exported'' ''True''] =
     (Some (External ''conflict''), progressingExecution, emptyStore) \<and>
   Phase (Status progressingExecution) = ''Progressing'' \<and>
   Phase (Status sampleExecution) = ''Init''"
proof -
  have fails: "UpdateExecutionStatus failingWriter emptyStore
     (sampleExecution\<lparr>Status := (Status sampleExecution)\<lparr>Phase := ''Progressing'',
        Conditions := MergeConditions (Conditions (Status sampleExecution))
          [condition ''Ready'' ''True'', condition ''Exported'' ''True'']\<rparr>\<rparr>) =
     (Some (External ''conflict''), emptyStore)"
    by (simp add: failingWriter_def storeWriter_def storeUpdateExecutionStatus_def)
  from update_status_keeps_mutation [OF fails]
  have "UpdateStatus failingWriter sampleExecution emptyStore ''Progressing''
     [condition ''Ready'' ''True'', condition ''Exported'' ''True''] =
     (Some (External ''conflict''), progressingExecution, emptyStore)"
    by (simp only: sample_progressing)
  with fails show ?thesis
    by (simp add: progressingExecution_def sampleExecution_def)
qed

text \<open>
  C5 on the sample execution: \<open>Ready\<close> is replaced at its index, \<open>Exported\<close> is
  appended, \<open>Reconcile\<close> is kept.
\<close>

theorem update_status_merges_witness:
  "UpdateStatus reliableWriter sampleExecution emptyStore ''Progressing''
     [condition ''Ready'' ''True'', condition ''Exported'' ''True''] =
     (None, progressingExecution,
      emptyStore\<lparr>executions := [(''default'', ''exec'') \<mapsto> Status progressingExecution]\<rparr>) \<and>
   Conditions (Status sampleExecution) =
     [condition ''Reconcile'' ''False'', condition ''Ready'' ''False''] \<and>
   Phase (Status progressingExecution) = ''Progressing'' \<and>
   Conditions (Status progressingExecution) =
     MergeConditions (Conditions (Status sampleExecution))
       [condition ''Ready'' ''True'', condition ''Exported'' ''True''] \<and>
   Conditions (Status progressingExecution) =
     [condition ''Reconcile'' ''False'', condition ''Ready'' ''True'',
      condition ''Exported'' ''True''] \<and>
   conditionIndex (Conditions (Status sampleExecution)) ''Ready'' = Some 1 \<and>
   conditionIndex (Conditions (Status sampleExecution)) ''Exported'' = None"
proof -
  have index: "conditionIndex (Conditions (Status sampleExecution)) ''Ready'' = Some 1"
    "conditionIndex (Conditions (Status sampleExecution)) ''Exported'' = None"
    by (simp_all add: sampleExecution_def condition_def)
  have run: "UpdateStatus reliableWriter sampleExecution emptyStore ''Progressing''
     [condition ''Ready'' ''True'', condition ''Exported'' ''True''] =
     (None, progressingExecution,
      emptyStore\<lparr>executions := [(''default'', ''exec'') \<mapsto> Status progressingExecution]\<rparr>)"
    unfolding UpdateStatus_eq sample_progressing
    by (simp add: reliableWriter_def storeWriter_def storeUpdateExecutionStatus_def
        emptyStore_def progressingExecution_def sampleExecution_def)
  from update_status_merges [OF run]
  have "Phase (Status progressingExecution) = ''Progressing''"
    and "Conditions (Status progressingExecution) =
      MergeConditions (Conditions (Status sampleExecution))
        [condition ''Ready'' ''True'', condition ''Exported'' ''True'']"
    by blast+
  with run index show ?thesis
    by (simp add: sample_merge) (simp add: sampleExecution_def)
qed

subsection \<open>The export reference\<close>

text \<open>
  C10. When \<^verbatim>\<open>Build\<close> fails, or when \<^verbatim>\<open>CreateOrUpdateDataObject\<close> fails,
  \<^verbatim>\<open>CreateOrUpdateExportReference\<close> returns the error and leaves the execution as it was,
  its export reference included. When both succeed, the export reference is assigned from
  the name and namespace of the object, and the operation ends with the status update of
  that execution with its phase unchanged.
\<close>

theorem export_reference_set_after_upsert:
  "(Build h (exportDataObject h exec values) = Inl err \<longrightarrow>
      CreateOrUpdateExportReference w h exec s values = (Some err, exec, s)) \<and>
   (Build h (exportDataObject h exec values) = Inr raw \<and>
    CreateOrUpdateDataObject w s raw (mutateExport h exec (exportDataObject h exec values)) =
      (Some err, s', raw') \<longrightarrow>
      CreateOrUpdateExportReference w h exec s values = (Some err, exec, s')) \<and>
   (Build h (exportDataObject h exec values) = Inr raw \<and>
    CreateOrUpdateDataObject w s raw (mutateExport h exec (exportDataObject h exec values)) =
      (None, s', raw') \<longrightarrow>
      CreateOrUpdateExportReference w h exec s values =
        UpdateStatus w
          (exec\<lparr>Status := (Status exec)\<lparr>ExportReference :=
             Some \<lparr>ref_Name = do_Name raw', ref_Namespace = do_Namespace raw'\<rparr>\<rparr>\<rparr>)
          s' (Phase (Status exec)) [] \<and>
      ExportReference (Status (fst (snd (CreateOrUpdateExportReference w h exec s values)))) =
        Some \<lparr>ref_Name = do_Name raw', ref_Namespace = do_Namespace raw'\<rparr>)"
proof (intro conjI impI)
  assume "Build h (exportDataObject h exec values) = Inl err"
  then show "CreateOrUpdateExportReference w h exec s values = (Some err, exec, s)"
    by (simp add: CreateOrUpdateExportReference_def)
next
  assume "Build h (exportDataObject h exec values) = Inr raw \<and>
    CreateOrUpdateDataObject w s raw (mutateExport h exec (exportDataObject h exec values)) =
      (Some err, s', raw')"
  then show "CreateOrUpdateExportReference w h exec s values = (Some err, exec, s')"
    by (simp add: CreateOrUpdateExportReference_def)
next
  assume upserted: "Build h (exportDataObject h exec values) = Inr raw \<and>
    CreateOrUpdateDataObject w s raw (mutateExport h exec (exportDataObject h exec values)) =
      (None, s', raw')"
  then show run: "CreateOrUpdateExportReference w h exec s values =
      UpdateStatus w
        (exec\<lparr>Status := (Status exec)\<lparr>ExportReference :=
           Some \<lparr>ref_Name = do_Name raw', ref_Namespace = do_Namespace raw'\<rparr>\<rparr>\<rparr>)
        s' (Phase (Status exec)) []"
    by (simp add: CreateOrUpdateExportReference_def Let_def)
  show "ExportReference (Status (fst (snd (CreateOrUpdateExportReference w h exec s values)))) =
      Some \<lparr>ref_Name = do_Name raw', ref_Namespace = do_Namespace raw'\<rparr>"
    unfolding run by (simp add: UpdateStatus_eq)
qed

lemma body_overwritten:
  "(b :: DataObjectBody)\<lparr>do_Owner := ow, do_Source := src, do_Context := ctx, do_Data := d\<rparr> =
   \<lparr>do_Source = src, do_Context = ctx, do_Owner = ow, do_Data = d\<rparr>"
  by (cases b) simp

lemma store_upsert:
  assumes "CreateOrUpdateDataObject (storeWriter sf df) s raw (mutateExport h exec do) =
      (None, s', raw')"
  shows "do_Name raw' = do_Name raw \<and> do_Namespace raw' = do_Namespace raw \<and>
    (\<exists>data. Marshal h (b_Data do) = Inr data \<and>
      s' = s\<lparr>dataObjects := (dataObjects s)((do_Namespace raw, do_Name raw) \<mapsto>
        \<lparr>do_Source = b_Source do, do_Context = b_Context do,
         do_Owner = Some (exec_Namespace exec, exec_Name exec), do_Data = data\<rparr>)\<rparr>)"
  using assms
  by (auto simp add: storeWriter_def storeCreateOrUpdateDataObject_def mutateExport_def
      SetOwnerReference_def Apply_def Let_def body_overwritten
      split: option.splits sum.splits)


text \<open>
  C4. With the writer that upserts by name and namespace, two successful calls of
  \<^verbatim>\<open>CreateOrUpdateExportReference\<close> with the same values, the second on the execution and
  store left by the first, write to the same derived name and namespace: the first call
  adds at most that one key to the data objects, the second call changes neither the data
  objects nor the execution nor the store, and the export reference is the same name and
  namespace after both.
\<close>

theorem publish_export_idempotent:
  assumes first: "CreateOrUpdateExportReference (storeWriter sf df) h exec s values =
      (None, exec1, s1)"
    and second: "CreateOrUpdateExportReference (storeWriter sf df) h exec1 s1 values =
      (None, exec2, s2)"
  shows "ExportReference (Status exec1) =
           Some \<lparr>ref_Name = GenerateName h (DataObjectSourceFromExecution h exec),
                 ref_Namespace = exec_Namespace exec\<rparr> \<and>
         ExportReference (Status exec2) = ExportReference (Status exec1) \<and>
         dom (dataObjects s1) =
           insert (exec_Namespace exec, GenerateName h (DataObjectSourceFromExecution h exec))
             (dom (dataObjects s)) \<and>
         dataObjects s2 = dataObjects s1 \<and>
         exec2 = exec1 \<and> s2 = s1"
proof -
  let ?do = "exportDataObject h exec values"
  let ?name = "GenerateName h (DataObjectSourceFromExecution h exec)"
  let ?key = "(exec_Namespace exec, ?name)"
  let ?ref = "\<lparr>ref_Name = ?name, ref_Namespace = exec_Namespace exec\<rparr>"
  obtain data where data: "Marshal h values = Inr data"
    using first
    by (cases "Marshal h values")
      (simp_all add: CreateOrUpdateExportReference_def Build_def exportDataObject_def)
  let ?raw = "\<lparr>do_Name = ?name, do_Namespace = exec_Namespace exec,
      do_Body = \<lparr>do_Source = DataObjectSourceFromExecution h exec,
                 do_Context = DataObjectSourceFromExecution h exec,
                 do_Owner = None, do_Data = data\<rparr>\<rparr>"
  let ?body = "\<lparr>do_Source = DataObjectSourceFromExecution h exec,
                 do_Context = DataObjectSourceFromExecution h exec,
                 do_Owner = Some (exec_Namespace exec, exec_Name exec), do_Data = data\<rparr>"
  have build: "Build h ?do = Inr ?raw"
    using data by (simp add: Build_def exportDataObject_def)
  obtain t raw' where upsert:
    "CreateOrUpdateDataObject (storeWriter sf df) s ?raw (mutateExport h exec ?do) =
      (None, t, raw')"
    using first build
    by (cases "CreateOrUpdateDataObject (storeWriter sf df) s ?raw (mutateExport h exec ?do)")
      (auto simp add: CreateOrUpdateExportReference_def Let_def split: option.splits)
  from store_upsert [OF upsert] data have raw': "do_Name raw' = ?name"
    "do_Namespace raw' = exec_Namespace exec"
    and t: "t = s\<lparr>dataObjects := (dataObjects s)(?key \<mapsto> ?body)\<rparr>"
    by (auto simp add: exportDataObject_def)
  let ?exec1 = "exec\<lparr>Status := (Status exec)\<lparr>ExportReference := Some ?ref\<rparr>\<rparr>"
  from first build upsert raw' have status1:
    "UpdateStatus (storeWriter sf df) ?exec1 t (Phase (Status exec)) [] = (None, exec1, s1)"
    by (simp add: CreateOrUpdateExportReference_def Let_def)
  then have exec1: "exec1 = ?exec1"
    by (simp add: UpdateStatus_eq MergeConditions_def)
  from status1 have s1: "s1 = t\<lparr>executions :=
      (executions t)((exec_Namespace exec, exec_Name exec) \<mapsto> Status exec1)\<rparr>"
    by (auto simp add: UpdateStatus_eq storeWriter_def storeUpdateExecutionStatus_def
        MergeConditions_def split: option.splits)
  have same_id: "exec_Namespace exec1 = exec_Namespace exec" "exec_Name exec1 = exec_Name exec"
    "Phase (Status exec1) = Phase (Status exec)"
    by (simp_all add: exec1)
  have do1: "exportDataObject h exec1 values = ?do"
    by (simp add: exportDataObject_def DataObjectSourceFromExecution_def same_id)
  have build1: "Build h (exportDataObject h exec1 values) = Inr ?raw"
    using build by (simp add: do1)
  obtain t' raw'' where upsert1:
    "CreateOrUpdateDataObject (storeWriter sf df) s1 ?raw (mutateExport h exec1 ?do) =
      (None, t', raw'')"
    using second build1 do1
    by (cases "CreateOrUpdateDataObject (storeWriter sf df) s1 ?raw (mutateExport h exec1 ?do)")
      (auto simp add: CreateOrUpdateExportReference_def Let_def split: option.splits)
  from store_upsert [OF upsert1] data have raw'': "do_Name raw'' = ?name"
    "do_Namespace raw'' = exec_Namespace exec"
    and t': "t' = s1\<lparr>dataObjects := (dataObjects s1)(?key \<mapsto> ?body)\<rparr>"
    by (auto simp add: exportDataObject_def same_id)
  have t'_s1: "t' = s1"
    by (simp add: t' s1 t)
  have exec1_again: "exec1\<lparr>Status := (Status exec1)\<lparr>ExportReference := Some ?ref\<rparr>\<rparr> = exec1"
    by (simp add: exec1)
  from second build1 do1 upsert1 raw'' have status2:
    "UpdateStatus (storeWriter sf df) exec1 s1 (Phase (Status exec1)) [] = (None, exec2, s2)"
    by (simp add: CreateOrUpdateExportReference_def Let_def exec1_again t'_s1 same_id)
  then have exec2: "exec2 = exec1"
    by (simp add: UpdateStatus_eq MergeConditions_def)
  from status2 have "s2 = s1\<lparr>executions :=
      (executions s1)((exec_Namespace exec1, exec_Name exec1) \<mapsto> Status exec1)\<rparr>"
    by (auto simp add: UpdateStatus_eq storeWriter_def storeUpdateExecutionStatus_def
        MergeConditions_def split: option.splits)
  then have s2: "s2 = s1"
    by (simp add: s1 same_id)
  have "dom (dataObjects s1) = insert ?key (dom (dataObjects s))"
    by (simp add: s1 t)
  moreover have "ExportReference (Status exec1) = Some ?ref"
    by (simp add: exec1)
  ultimately show ?thesis
    using exec2 s2 by simp
qed

lemma sample_source:
  "DataObjectSourceFromExecution sampleHelpers sampleExecution = ''executions/default/exec''"
  by (simp add: DataObjectSourceFromExecution_def sampleHelpers_def sampleExecution_def)

lemma sample_builder:
  "exportDataObject sampleHelpers sampleExecution values =
     \<lparr>b_Namespace = ''default'', b_Source = ''executions/default/exec'',
      b_Context = ''executions/default/exec'', b_Data = values\<rparr>"
  unfolding exportDataObject_def sample_source
  by (simp add: sampleExecution_def)

lemma sample_build_fails:
  "Build sampleHelpers (exportDataObject sampleHelpers sampleExecution (StringMap Map.empty)) =
     Inl (External ''unsupported value'')"
  unfolding sample_builder by (simp add: Build_def sampleHelpers_def)

lemma sample_build:
  "Build sampleHelpers (exportDataObject sampleHelpers sampleExecution (Generic ''3'')) =
     Inr builtObject"
  unfolding sample_builder by (simp add: Build_def sampleHelpers_def builtObject_def)

lemma sample_mutate:
  "mutateExport sampleHelpers sampleExecution
     (exportDataObject sampleHelpers sampleExecution (Generic ''3'')) builtObject =
   Inr appliedObject"
  unfolding sample_builder
  by (simp add: mutateExport_def SetOwnerReference_def Apply_def sampleHelpers_def
      builtObject_def appliedObject_def sampleExecution_def)

lemma sample_upsert_fails:
  "CreateOrUpdateDataObject failingWriter emptyStore builtObject
     (mutateExport sampleHelpers sampleExecution
        (exportDataObject sampleHelpers sampleExecution (Generic ''3''))) =
   (Some (External ''conflict''), emptyStore, appliedObject)"
proof -
  have "dataObjects emptyStore (do_Namespace builtObject, do_Name builtObject) = None"
    by (simp add: emptyStore_def)
  then show ?thesis
    by (simp add: failingWriter_def storeWriter_def storeCreateOrUpdateDataObject_def
        sample_mutate)
qed

lemma sample_upsert:
  "CreateOrUpdateDataObject reliableWriter emptyStore builtObject
     (mutateExport sampleHelpers sampleExecution
        (exportDataObject sampleHelpers sampleExecution (Generic ''3''))) =
   (None,
    emptyStore\<lparr>dataObjects := [(''default'', ''do-executions/default/exec'') \<mapsto>
      do_Body appliedObject]\<rparr>,
    appliedObject)"
proof -
  have "dataObjects emptyStore (do_Namespace builtObject, do_Name builtObject) = None"
    by (simp add: emptyStore_def)
  then show ?thesis
    by (simp add: reliableWriter_def storeWriter_def storeCreateOrUpdateDataObject_def
        sample_mutate) (simp add: builtObject_def emptyStore_def)
qed

text \<open>
  C10 on the sample execution: a value that cannot be encoded, a writer that fails, and a
  writer that succeeds.
\<close>

theorem export_reference_set_after_upsert_witness:
  "Build sampleHelpers (exportDataObject sampleHelpers sampleExecution (StringMap Map.empty)) =
     Inl (External ''unsupported value'') \<and>
   CreateOrUpdateExportReference reliableWriter sampleHelpers sampleExecution emptyStore
     (StringMap Map.empty) = (Some (External ''unsupported value''), sampleExecution, emptyStore) \<and>
   Build sampleHelpers (exportDataObject sampleHelpers sampleExecution (Generic ''3'')) =
     Inr builtObject \<and>
   CreateOrUpdateDataObject failingWriter emptyStore builtObject
     (mutateExport sampleHelpers sampleExecution
        (exportDataObject sampleHelpers sampleExecution (Generic ''3''))) =
     (Some (External ''conflict''), emptyStore, appliedObject) \<and>
   CreateOrUpdateExportReference failingWriter sampleHelpers sampleExecution emptyStore
     (Generic ''3'') = (Some (External ''conflict''), sampleExecution, emptyStore) \<and>
   ExportReference (Status sampleExecution) = None \<and>
   CreateOrUpdateDataObject reliableWriter emptyStore builtObject
     (mutateExport sampleHelpers sampleExecution
        (exportDataObject sampleHelpers sampleExecution (Generic ''3''))) =
     (None,
      emptyStore\<lparr>dataObjects := [(''default'', ''do-executions/default/exec'') \<mapsto>
        do_Body appliedObject]\<rparr>,
      appliedObject) \<and>
   ExportReference (Status (fst (snd (CreateOrUpdateExportReference reliableWriter sampleHelpers
     sampleExecution emptyStore (Generic ''3''))))) =
     Some \<lparr>ref_Name = ''do-executions/default/exec'', ref_Namespace = ''default''\<rparr>"
proof -
  have one: "CreateOrUpdateExportReference reliableWriter sampleHelpers sampleExecution
      emptyStore (StringMap Map.empty) =
      (Some (External ''unsupported value''), sampleExecution, emptyStore)"
    using export_reference_set_after_upsert [of sampleHelpers sampleExecution
        "StringMap Map.empty" "External ''unsupported value''" reliableWriter emptyStore]
      sample_build_fails
    by blast
  have two: "CreateOrUpdateExportReference failingWriter sampleHelpers sampleExecution
      emptyStore (Generic ''3'') = (Some (External ''conflict''), sampleExecution, emptyStore)"
    using export_reference_set_after_upsert [of sampleHelpers sampleExecution
        "Generic ''3''" "External ''conflict''" failingWriter emptyStore builtObject
        emptyStore appliedObject]
      sample_build sample_upsert_fails
    by blast
  have "ExportReference (Status (fst (snd (CreateOrUpdateExportReference reliableWriter
      sampleHelpers sampleExecution emptyStore (Generic ''3''))))) =
      Some \<lparr>ref_Name = do_Name appliedObject, ref_Namespace = do_Namespace appliedObject\<rparr>"
    using export_reference_set_after_upsert [of sampleHelpers sampleExecution
        "Generic ''3''" _ reliableWriter emptyStore builtObject
        "emptyStore\<lparr>dataObjects := [(''default'', ''do-executions/default/exec'') \<mapsto>
          do_Body appliedObject]\<rparr>" appliedObject]
      sample_build sample_upsert
    by blast
  then have three: "ExportReference (Status (fst (snd (CreateOrUpdateExportReference
      reliableWriter sampleHelpers sampleExecution emptyStore (Generic ''3''))))) =
      Some \<lparr>ref_Name = ''do-executions/default/exec'', ref_Namespace = ''default''\<rparr>"
    by (simp add: appliedObject_def)
  have none: "ExportReference (Status sampleExecution) = None"
    by (simp add: sampleExecution_def)
  show ?thesis
    using one two three none sample_build_fails sample_build sample_upsert_fails sample_upsert
    by (intro conjI)
qed

lemma sample_publish:
  "CreateOrUpdateExportReference reliableWriter sampleHelpers sampleExecution emptyStore
     (Generic ''3'') = (None, publishedExecution, publishedStore)"
proof -
  have "CreateOrUpdateExportReference reliableWriter sampleHelpers sampleExecution emptyStore
     (Generic ''3'') =
    UpdateStatus reliableWriter
      (sampleExecution\<lparr>Status := (Status sampleExecution)\<lparr>ExportReference :=
         Some \<lparr>ref_Name = do_Name appliedObject, ref_Namespace = do_Namespace appliedObject\<rparr>\<rparr>\<rparr>)
      (emptyStore\<lparr>dataObjects := [(''default'', ''do-executions/default/exec'') \<mapsto>
          do_Body appliedObject]\<rparr>)
      (Phase (Status sampleExecution)) []"
    by (simp add: CreateOrUpdateExportReference_def Let_def sample_build sample_upsert)
  also have "\<dots> = (None, publishedExecution, publishedStore)"
    by (simp add: UpdateStatus_eq MergeConditions_def reliableWriter_def storeWriter_def
        storeUpdateExecutionStatus_def publishedExecution_def publishedStore_def
        appliedObject_def emptyStore_def sampleExecution_def)
  finally show ?thesis .
qed

lemma sample_publish_again:
  "CreateOrUpdateExportReference reliableWriter sampleHelpers publishedExecution publishedStore
     (Generic ''3'') = (None, publishedExecution, publishedStore)"
proof -
  have source: "DataObjectSourceFromExecution sampleHelpers publishedExecution =
      ''executions/default/exec''"
    by (simp add: DataObjectSourceFromExecution_def sampleHelpers_def publishedExecution_def
        sampleExecution_def)
  have builder: "exportDataObject sampleHelpers publishedExecution (Generic ''3'') =
     \<lparr>b_Namespace = ''default'', b_Source = ''executions/default/exec'',
      b_Context = ''executions/default/exec'', b_Data = Generic ''3''\<rparr>"
    unfolding exportDataObject_def source
    by (simp add: publishedExecution_def sampleExecution_def)
  have build: "Build sampleHelpers (exportDataObject sampleHelpers publishedExecution
      (Generic ''3'')) = Inr builtObject"
    unfolding builder by (simp add: Build_def sampleHelpers_def builtObject_def)
  have existing: "dataObjects publishedStore (do_Namespace builtObject, do_Name builtObject) =
      Some (do_Body appliedObject)"
    by (simp add: publishedStore_def builtObject_def appliedObject_def)
  have mutate: "mutateExport sampleHelpers publishedExecution
      (exportDataObject sampleHelpers publishedExecution (Generic ''3''))
      (builtObject\<lparr>do_Body := do_Body appliedObject\<rparr>) = Inr appliedObject"
    unfolding builder
    by (simp add: mutateExport_def SetOwnerReference_def Apply_def sampleHelpers_def
        builtObject_def appliedObject_def publishedExecution_def sampleExecution_def)
  have upsert: "CreateOrUpdateDataObject reliableWriter publishedStore builtObject
      (mutateExport sampleHelpers publishedExecution
        (exportDataObject sampleHelpers publishedExecution (Generic ''3''))) =
      (None, publishedStore, appliedObject)"
    using existing
    by (simp add: reliableWriter_def storeWriter_def storeCreateOrUpdateDataObject_def mutate)
      (simp add: builtObject_def appliedObject_def publishedStore_def)
  have "CreateOrUpdateExportReference reliableWriter sampleHelpers publishedExecution
      publishedStore (Generic ''3'') =
    UpdateStatus reliableWriter
      (publishedExecution\<lparr>Status := (Status publishedExecution)\<lparr>ExportReference :=
         Some \<lparr>ref_Name = do_Name appliedObject, ref_Namespace = do_Namespace appliedObject\<rparr>\<rparr>\<rparr>)
      publishedStore (Phase (Status publishedExecution)) []"
    by (simp add: CreateOrUpdateExportReference_def Let_def build upsert)
  also have "\<dots> = (None, publishedExecution, publishedStore)"
    by (simp add: UpdateStatus_eq MergeConditions_def reliableWriter_def storeWriter_def
        storeUpdateExecutionStatus_def publishedExecution_def publishedStore_def
        appliedObject_def sampleExecution_def)
  finally show ?thesis .
qed

text \<open>
  C4 on the sample execution: after the first and after the second publication the store
  holds the one data object.
\<close>

theorem publish_export_idempotent_witness:
  "CreateOrUpdateExportReference reliableWriter sampleHelpers sampleExecution emptyStore
     (Generic ''3'') = (None, publishedExecution, publishedStore) \<and>
   CreateOrUpdateExportReference reliableWriter sampleHelpers publishedExecution publishedStore
     (Generic ''3'') = (None, publishedExecution, publishedStore) \<and>
   ExportReference (Status publishedExecution) =
     Some \<lparr>ref_Name = ''do-executions/default/exec'', ref_Namespace = ''default''\<rparr> \<and>
   dom (dataObjects emptyStore) = {} \<and>
   dom (dataObjects publishedStore) = {(''default'', ''do-executions/default/exec'')}"
proof -
  note first = sample_publish [unfolded reliableWriter_def]
  note second = sample_publish_again [unfolded reliableWriter_def]
  from publish_export_idempotent [OF first second]
  have ref: "ExportReference (Status publishedExecution) =
      Some \<lparr>ref_Name = GenerateName sampleHelpers
               (DataObjectSourceFromExecution sampleHelpers sampleExecution),
            ref_Namespace = exec_Namespace sampleExecution\<rparr>"
    and objects: "dom (dataObjects publishedStore) =
      insert (exec_Namespace sampleExecution,
              GenerateName sampleHelpers
                (DataObjectSourceFromExecution sampleHelpers sampleExecution))
        (dom (dataObjects emptyStore))"
    by blast+
  have name: "GenerateName sampleHelpers
      (DataObjectSourceFromExecution sampleHelpers sampleExecution) =
      ''do-executions/default/exec''"
    unfolding sample_source by (simp add: sampleHelpers_def)
  have namespace: "exec_Namespace sampleExecution = ''default''"
    by (simp add: sampleExecution_def)
  have empty: "dom (dataObjects emptyStore) = {}"
    by (simp add: emptyStore_def)
  show ?thesis
    using ref objects sample_publish sample_publish_again
    unfolding name namespace empty
    by (intro conjI) simp_all
qed

end
